theory Spec2Isabelle
  imports Main
begin

section \<open>Python values used by the service\<close>

text \<open>
  A Python \<open>str\<close> is a sequence of Unicode code points; a code point is a natural
  number. \<open>py_str\<close> reads an ASCII literal as such a sequence.
\<close>

type_synonym str = "nat list"

definition py_str :: "string \<Rightarrow> str" where
  "py_str cs = map of_char cs"

text \<open>
  \<open>str.isspace\<close> on one code point, and \<open>str.strip()\<close> without an argument: the
  code points CPython treats as whitespace are removed from both ends.
\<close>

definition isspace :: "nat \<Rightarrow> bool" where
  "isspace c = (c \<in> set [9, 10, 11, 12, 13, 28, 29, 30, 31, 32, 133, 160, 5760,
     8192, 8193, 8194, 8195, 8196, 8197, 8198, 8199, 8200, 8201, 8202,
     8232, 8233, 8239, 8287, 12288])"

definition strip :: "str \<Rightarrow> str" where
  "strip s = rev (dropWhile isspace (rev (dropWhile isspace s)))"

text \<open>\<open>str(n)\<close> for a non-negative integer: its decimal digits.\<close>

function decimal :: "nat \<Rightarrow> str" where
  "decimal n = (if n < 10 then [48 + n] else decimal (n div 10) @ [48 + n mod 10])"
  by pat_completeness auto
termination
  by (relation "measure id") auto

subsection \<open>Exceptions\<close>

text \<open>
  \<open>HTTPException(status_code, detail)\<close> of FastAPI, and the other exceptions that leave
  a route. Nothing in the service catches the \<open>OverflowError\<close> of \<open>datetime\<close>
  arithmetic, the \<open>TypeError\<close> of comparing a naive with an aware \<open>datetime\<close>, or the
  \<open>ConnectionRefusedError\<close> of a database server that is down. A request body that does
  not fit its pydantic model raises a validation error before the endpoint runs.
\<close>

record HTTPException =
  status_code :: nat
  detail :: str

datatype exn =
    HTTP HTTPException
  | OverflowError
  | TypeError
  | ConnectionRefusedError
  | RequestValidationError "str list"

text \<open>
  \<open>str(e)\<close> for an \<open>HTTPException\<close>, as Starlette defines \<open>__str__\<close>:
  the status code, a colon and the detail.
\<close>

definition str_HTTPException :: "HTTPException \<Rightarrow> str" where
  "str_HTTPException e = decimal (status_code e) @ py_str '': '' @ detail e"

text \<open>
  The status line FastAPI sends for the outcome of a route: 200 for a returned value,
  the exception's own code for an \<open>HTTPException\<close>, 422 for a body that fails
  validation, 500 for any exception nobody handles.
\<close>

fun http_status :: "exn + 'a \<Rightarrow> nat" where
  "http_status (Inr _) = 200"
| "http_status (Inl (HTTP e)) = status_code e"
| "http_status (Inl OverflowError) = 500"
| "http_status (Inl TypeError) = 500"
| "http_status (Inl ConnectionRefusedError) = 500"
| "http_status (Inl (RequestValidationError _)) = 422"

subsection \<open>datetime and timedelta\<close>

text \<open>
  An aware UTC \<open>datetime\<close> is the number of microseconds since 0001-01-01T00:00:00;
  the last one is 9999-12-31T23:59:59.999999, the last microsecond of the day with
  ordinal 3652059. A \<open>timedelta\<close> is a number of microseconds.

  \<open>timedelta(seconds=s)\<close> raises \<open>OverflowError\<close> when the number of whole days is
  beyond 999999999 in magnitude; \<open>datetime + timedelta\<close> raises it when the sum is not a
  \<open>datetime\<close>.
\<close>

type_synonym datetime = int

type_synonym timedelta = int

definition MAXORDINAL :: int where
  "MAXORDINAL = 3652059"

definition datetime_end :: int where
  "datetime_end = MAXORDINAL * 86400 * 1000000"

text \<open>
  A value of \<open>datetime\<close>: an instant from \<open>datetime.min\<close>, 0001-01-01T00:00:00, up to
  \<open>datetime.max\<close>, the last microsecond of the year 9999.
\<close>

definition is_datetime :: "int \<Rightarrow> bool" where
  "is_datetime t = (0 \<le> t \<and> t < datetime_end)"

definition datetime_min :: datetime where
  "datetime_min = 0"

definition datetime_max :: datetime where
  "datetime_max = datetime_end - 1"

definition timedelta_seconds :: "int \<Rightarrow> exn + timedelta" where
  "timedelta_seconds s =
     (if 999999999 < \<bar>s div 86400\<bar> then Inl OverflowError else Inr (s * 1000000))"

definition datetime_add :: "datetime \<Rightarrow> timedelta \<Rightarrow> exn + datetime" where
  "datetime_add d td =
     (if 0 \<le> d + td \<and> d + td < datetime_end then Inr (d + td) else Inl OverflowError)"

text \<open>
  \<open>x < t\<close> for an expiry \<open>x\<close> as it was read back from the table and the clock reading
  \<open>t\<close>, an aware \<open>datetime\<close>. The database driver (asyncpg) writes \<open>datetime.max\<close> as
  PostgreSQL's \<open>infinity\<close> and \<open>datetime.min\<close> as \<open>-infinity\<close>, and reads the two back
  as \<open>datetime.max\<close> and \<open>datetime.min\<close> without \<open>tzinfo\<close>; comparing such a naive value
  with the aware clock reading raises \<open>TypeError\<close>. Every other expiry comes back aware
  and is compared as an instant. A clock reading is always a \<open>datetime\<close>; for an integer
  \<open>t\<close> that is none, the definition only compares.
\<close>

definition expired_at :: "datetime \<Rightarrow> datetime \<Rightarrow> exn + bool" where
  "expired_at x t =
     (if is_datetime t \<and> (x = datetime_min \<or> x = datetime_max) then Inl TypeError
      else Inr (x < t))"

section \<open>The token store (app/db)\<close>

text \<open>
  \<open>models.EmbedToken\<close>: the columns the service writes and reads. The columns \<open>id\<close>
  and \<open>created_at\<close> are filled by their column defaults and are read by no route.
\<close>

record EmbedToken =
  embed_token :: str
  cypher_query :: str
  expires_at :: datetime

text \<open>
  The database behind a session: the rows of the table \<open>embed_tokens\<close>, and the
  statements the service has sent to it so far, in order.
\<close>

datatype sql = INSERT EmbedToken | ROLLBACK | SELECT str

record database =
  embed_tokens :: "EmbedToken list"
  statements :: "sql list"

text \<open>
  How the database can fail the statement of a request for a reason of its own: with an
  \<open>SQLAlchemyError\<close> (the connection is lost, the statement times out, the server
  rejects a value), given with its \<open>str(e)\<close>; or, when the server is down, with the
  \<open>ConnectionRefusedError\<close> of the connection attempt, which is no \<open>SQLAlchemyError\<close>.
\<close>

datatype db_exception = SQLAlchemyError str | ConnectionRefused

text \<open>
  What one request reads from its surroundings: the clock, the token \<open>str(uuid4())\<close>,
  the environment variable \<open>EMBED_BASE_URL\<close>, whether and how the database fails the
  statement of this request, and the text \<open>str(e)\<close> the database gives the
  \<open>IntegrityError\<close> of a violated unique constraint.
\<close>

record env =
  now :: datetime
  uuid4 :: str
  EMBED_BASE_URL :: "str option"
  db_failure :: "db_exception option"
  unique_violation :: str

definition send :: "sql \<Rightarrow> database \<Rightarrow> database" where
  "send q db = db\<lparr>statements := statements db @ [q]\<rparr>"

text \<open>
  \<open>session.add(embed); await session.commit()\<close>: the row is inserted unless the database
  fails or the column \<open>embed_token\<close> (declared \<open>unique=True\<close>) already holds the token.
  A failed commit changes no row; when the server is down no statement reaches it.
\<close>

definition commit :: "env \<Rightarrow> database \<Rightarrow> EmbedToken \<Rightarrow> (db_exception + unit) \<times> database" where
  "commit e db embed_row =
     (case db_failure e of
        Some ConnectionRefused \<Rightarrow> (Inl ConnectionRefused, db)
      | Some (SQLAlchemyError m) \<Rightarrow> (Inl (SQLAlchemyError m), send (INSERT embed_row) db)
      | None \<Rightarrow>
          if embed_token embed_row \<in> set (map embed_token (embed_tokens db))
          then (Inl (SQLAlchemyError (unique_violation e)), send (INSERT embed_row) db)
          else (Inr (), (send (INSERT embed_row) db)
                          \<lparr>embed_tokens := embed_tokens db @ [embed_row]\<rparr>))"

text \<open>
  \<open>crud.create_embed\<close>: only an \<open>SQLAlchemyError\<close> is caught, rolled back and turned
  into \<open>HTTPException(500)\<close>; any other exception leaves the function as it is.
\<close>

definition create_embed ::
  "env \<Rightarrow> database \<Rightarrow> str \<Rightarrow> str \<Rightarrow> datetime \<Rightarrow> (exn + EmbedToken) \<times> database" where
  "create_embed e db token query expiry =
     (let embed_row = \<lparr>embed_token = token, cypher_query = query, expires_at = expiry\<rparr> in
      case commit e db embed_row of
        (Inr _, db') \<Rightarrow> (Inr embed_row, db')
      | (Inl (SQLAlchemyError m), db') \<Rightarrow>
          (Inl (HTTP \<lparr>status_code = 500, detail = py_str ''Database error: '' @ m\<rparr>),
           send ROLLBACK db')
      | (Inl ConnectionRefused, db') \<Rightarrow> (Inl ConnectionRefusedError, db'))"

text \<open>
  \<open>crud.find_by_token\<close>: \<open>scalar_one_or_none()\<close> gives the row, \<open>None\<close> when no row
  matches, and raises \<open>MultipleResultsFound\<close> (an \<open>SQLAlchemyError\<close>) when several do.
  Here too only an \<open>SQLAlchemyError\<close> is caught.
\<close>

definition find_by_token ::
  "env \<Rightarrow> database \<Rightarrow> str \<Rightarrow> (exn + EmbedToken option) \<times> database" where
  "find_by_token e db token =
     (case db_failure e of
        Some ConnectionRefused \<Rightarrow> (Inl ConnectionRefusedError, db)
      | Some (SQLAlchemyError m) \<Rightarrow>
          (Inl (HTTP \<lparr>status_code = 500, detail = py_str ''Database error: '' @ m\<rparr>),
           send (SELECT token) db)
      | None \<Rightarrow>
          (case filter (\<lambda>r. embed_token r = token) (embed_tokens db) of
             [] \<Rightarrow> (Inr None, send (SELECT token) db)
           | [r] \<Rightarrow> (Inr (Some r), send (SELECT token) db)
           | _ \<Rightarrow>
               (Inl (HTTP \<lparr>status_code = 500,
                     detail = py_str ''Database error: Multiple rows were found when one or none was required''\<rparr>),
                send (SELECT token) db)))"

section \<open>The embed routes (app/api/embed.py, app/main.py)\<close>

text \<open>The JSON envelope \<open>{"success": ..., "data": ...}\<close> of the embed routes.\<close>

record 'a response =
  success :: bool
  data :: 'a

text \<open>
  The payload of \<open>GET /api/embed/{token}\<close>. \<open>expiresAt\<close> is the instant that
  \<open>isoformat()\<close> renders.
\<close>

record TokenData =
  cypherQuery :: str
  token :: str
  expiresAt :: datetime

text \<open>\<open>main.get_embed_data\<close>\<close>

definition get_embed_data ::
  "env \<Rightarrow> database \<Rightarrow> str \<Rightarrow> (exn + TokenData response) \<times> database" where
  "get_embed_data e db tok =
     (case find_by_token e db tok of
        (Inl x, db') \<Rightarrow> (Inl x, db')
      | (Inr None, db') \<Rightarrow>
          (Inl (HTTP \<lparr>status_code = 404, detail = py_str ''Token not found''\<rparr>), db')
      | (Inr (Some embed_record), db') \<Rightarrow>
          (case expired_at (expires_at embed_record) (now e) of
             Inl x \<Rightarrow> (Inl x, db')
           | Inr True \<Rightarrow>
               (Inl (HTTP \<lparr>status_code = 410, detail = py_str ''Token expired''\<rparr>), db')
           | Inr False \<Rightarrow>
               (Inr \<lparr>success = True,
                     data = \<lparr>cypherQuery = cypher_query embed_record,
                             token = tok,
                             expiresAt = expires_at embed_record\<rparr>\<rparr>, db')))"

text \<open>
  \<open>main.view_embed\<close>: the same lookup, answered with one of three pages
  (\<open>FileResponse\<close> of a file under \<open>public/\<close>).
\<close>

datatype page = embed_not_found_html | embed_expired_html | embed_html

definition view_embed :: "env \<Rightarrow> database \<Rightarrow> str \<Rightarrow> (exn + page) \<times> database" where
  "view_embed e db tok =
     (case find_by_token e db tok of
        (Inl x, db') \<Rightarrow> (Inl x, db')
      | (Inr None, db') \<Rightarrow> (Inr embed_not_found_html, db')
      | (Inr (Some embed_record), db') \<Rightarrow>
          (case expired_at (expires_at embed_record) (now e) of
             Inl x \<Rightarrow> (Inl x, db')
           | Inr True \<Rightarrow> (Inr embed_expired_html, db')
           | Inr False \<Rightarrow> (Inr embed_html, db')))"

text \<open>\<open>embed.EmbedRequest\<close> and \<open>embed.EmbedData\<close>\<close>

record EmbedRequest =
  cypherQuery :: str
  expiresInDays :: int

record EmbedData =
  embedUrl :: str
  embedToken :: str
  expiresAt :: datetime
  expiresIn :: int

text \<open>
  \<open>embed.create_embed_endpoint\<close>. \<open>x or 1\<close> on an integer is 1 when \<open>x\<close> is 0 and
  \<open>x\<close> otherwise.
\<close>

definition create_embed_endpoint ::
  "env \<Rightarrow> database \<Rightarrow> EmbedRequest \<Rightarrow> (exn + EmbedData response) \<times> database" where
  "create_embed_endpoint e db request =
     (if EmbedRequest.cypherQuery request = [] \<or> strip (EmbedRequest.cypherQuery request) = []
      then (Inl (HTTP \<lparr>status_code = 400, detail = py_str ''cypherQuery is required''\<rparr>), db)
      else
        let expires_days = (if expiresInDays request = 0 then 1 else expiresInDays request);
            expires_in = expires_days * 24 * 60 * 60
        in case timedelta_seconds expires_in of
             Inl x \<Rightarrow> (Inl x, db)
           | Inr td \<Rightarrow>
               (case datetime_add (now e) td of
                  Inl x \<Rightarrow> (Inl x, db)
                | Inr expiry \<Rightarrow>
                    (let tok = uuid4 e in
                     case create_embed e db tok (strip (EmbedRequest.cypherQuery request)) expiry of
                       (Inl x, db') \<Rightarrow> (Inl x, db')
                     | (Inr _, db') \<Rightarrow>
                         (let base_url = (case EMBED_BASE_URL e of
                                            None \<Rightarrow> py_str ''http://localhost:8000''
                                          | Some u \<Rightarrow> u);
                              embed_url = base_url @ py_str ''/view/'' @ tok
                          in (Inr \<lparr>success = True,
                                    data = \<lparr>embedUrl = embed_url,
                                            embedToken = tok,
                                            expiresAt = expiry,
                                            expiresIn = expires_in\<rparr>\<rparr>, db')))))"

text \<open>
  The body of \<open>POST /api/embed\<close> before validation, and what pydantic makes of it
  under the declaration of \<open>EmbedRequest\<close>: \<open>cypherQuery\<close> is required,
  \<open>expiresInDays\<close> is \<open>Field(7, ge=1)\<close>. All field errors are reported together.
\<close>

record EmbedRequest_body =
  cypherQuery_field :: "str option"
  expiresInDays_field :: "int option"

definition EmbedRequest_validate :: "EmbedRequest_body \<Rightarrow> exn + EmbedRequest" where
  "EmbedRequest_validate body =
     (let ge_errors = (case expiresInDays_field body of
                         None \<Rightarrow> []
                       | Some n \<Rightarrow>
                           if 1 \<le> n then []
                           else [py_str ''expiresInDays: Input should be greater than or equal to 1''])
      in case cypherQuery_field body of
           None \<Rightarrow> Inl (RequestValidationError (py_str ''cypherQuery: Field required'' # ge_errors))
         | Some q \<Rightarrow>
             if ge_errors = []
             then Inr \<lparr>cypherQuery = q,
                       expiresInDays = (case expiresInDays_field body of None \<Rightarrow> 7 | Some n \<Rightarrow> n)\<rparr>
             else Inl (RequestValidationError ge_errors))"

text \<open>The route \<open>POST /api/embed\<close>: validation of the body, then the endpoint.\<close>

definition post_api_embed ::
  "env \<Rightarrow> database \<Rightarrow> EmbedRequest_body \<Rightarrow> (exn + EmbedData response) \<times> database" where
  "post_api_embed e db body =
     (case EmbedRequest_validate body of
        Inl x \<Rightarrow> (Inl x, db)
      | Inr request \<Rightarrow> create_embed_endpoint e db request)"

text \<open>The token settings of \<open>config.Settings\<close>, with their defaults.\<close>

record Settings =
  MAX_TOKEN_EXPIRY_DAYS :: int
  DEFAULT_TOKEN_EXPIRY_DAYS :: int

definition settings :: Settings where
  "settings = \<lparr>MAX_TOKEN_EXPIRY_DAYS = 90, DEFAULT_TOKEN_EXPIRY_DAYS = 7\<rparr>"

section \<open>The query proxy (app/services/neo4j\_service.py, app/api/proxy.py)\<close>

text \<open>
  Classes of the exceptions a session of the neo4j driver raises, as \<open>neo4j.exceptions\<close>
  declares them, and \<open>ValueError\<close> for an exception from outside the driver. \<open>mro\<close> lists
  a class with its base classes; \<open>isinstance\<close> is membership in it.
  \<open>ServiceUnavailable\<close> (with its subclasses) and \<open>SessionExpired\<close> are \<open>DriverError\<close>s;
  the errors the server reports are \<open>Neo4jError\<close>s: \<open>ClientError\<close>, \<open>DatabaseError\<close>,
  \<open>TransientError\<close> and their subclasses, of which the ones named below stand for the
  rest.
\<close>

datatype exc_class =
    Exception
  | ValueError
  | DriverError
  | ServiceUnavailable
  | RoutingServiceUnavailable
  | WriteServiceUnavailable
  | ReadServiceUnavailable
  | IncompleteCommit
  | SessionExpired
  | Neo4jError
  | ClientError
  | CypherSyntaxError
  | CypherTypeError
  | AuthError
  | DatabaseError
  | TransientError
  | DatabaseUnavailable

fun mro :: "exc_class \<Rightarrow> exc_class list" where
  "mro Exception = [Exception]"
| "mro ValueError = [ValueError, Exception]"
| "mro DriverError = [DriverError, Exception]"
| "mro ServiceUnavailable = [ServiceUnavailable, DriverError, Exception]"
| "mro RoutingServiceUnavailable =
     [RoutingServiceUnavailable, ServiceUnavailable, DriverError, Exception]"
| "mro WriteServiceUnavailable =
     [WriteServiceUnavailable, ServiceUnavailable, DriverError, Exception]"
| "mro ReadServiceUnavailable =
     [ReadServiceUnavailable, ServiceUnavailable, DriverError, Exception]"
| "mro IncompleteCommit = [IncompleteCommit, ServiceUnavailable, DriverError, Exception]"
| "mro SessionExpired = [SessionExpired, DriverError, Exception]"
| "mro Neo4jError = [Neo4jError, Exception]"
| "mro ClientError = [ClientError, Neo4jError, Exception]"
| "mro CypherSyntaxError = [CypherSyntaxError, ClientError, Neo4jError, Exception]"
| "mro CypherTypeError = [CypherTypeError, ClientError, Neo4jError, Exception]"
| "mro AuthError = [AuthError, ClientError, Neo4jError, Exception]"
| "mro DatabaseError = [DatabaseError, Neo4jError, Exception]"
| "mro TransientError = [TransientError, Neo4jError, Exception]"
| "mro DatabaseUnavailable = [DatabaseUnavailable, TransientError, Neo4jError, Exception]"

text \<open>An exception the driver raises: its class and \<open>str(e)\<close>.\<close>

record py_exception =
  exc_type :: exc_class
  message :: str

definition isinstance :: "py_exception \<Rightarrow> exc_class \<Rightarrow> bool" where
  "isinstance ex c = (c \<in> set (mro (exc_type ex)))"

text \<open>
  The three error categories of the specification, with the status each maps to, and the
  category the specification's wording gives a failure of each class: unreachable or
  connection-level (no server answers, the connection of the session is lost, the
  database is not available) is \<open>Unavailable\<close>; a request the server rejects as invalid
  (syntax, types, or another client error of the statement) is \<open>QueryRejected\<close>; any
  other failure is \<open>Internal\<close>. \<open>spec_category\<close> follows the specification's words, not
  the code; it is what \<open>run_cypher\<close> is compared with.
\<close>

datatype error_category = Unavailable | QueryRejected | Internal

fun category_status :: "error_category \<Rightarrow> nat" where
  "category_status Unavailable = 503"
| "category_status QueryRejected = 400"
| "category_status Internal = 500"

fun spec_category :: "exc_class \<Rightarrow> error_category" where
  "spec_category ServiceUnavailable = Unavailable"
| "spec_category RoutingServiceUnavailable = Unavailable"
| "spec_category WriteServiceUnavailable = Unavailable"
| "spec_category ReadServiceUnavailable = Unavailable"
| "spec_category IncompleteCommit = Unavailable"
| "spec_category SessionExpired = Unavailable"
| "spec_category DatabaseUnavailable = Unavailable"
| "spec_category ClientError = QueryRejected"
| "spec_category CypherSyntaxError = QueryRejected"
| "spec_category CypherTypeError = QueryRejected"
| "spec_category Exception = Internal"
| "spec_category ValueError = Internal"
| "spec_category DriverError = Internal"
| "spec_category Neo4jError = Internal"
| "spec_category AuthError = Internal"
| "spec_category DatabaseError = Internal"
| "spec_category TransientError = Internal"

text \<open>
  The graph database as the driver shows it: what a session answers to a query with its
  parameters (the records, each already \<open>record.data()\<close>, or an exception), and the
  queries sent so far.
\<close>

datatype 'r run_result = Records "'r list" | Raises py_exception

record ('v, 'r) graph =
  respond :: "str \<Rightarrow> (str \<rightharpoonup> 'v) \<Rightarrow> 'r run_result"
  runs :: "(str \<times> (str \<rightharpoonup> 'v)) list"

text \<open>\<open>neo4j_service.run_cypher\<close>: the handlers are tried in the order written.\<close>

definition run_cypher ::
  "('v, 'r) graph \<Rightarrow> str \<Rightarrow> (str \<rightharpoonup> 'v) \<Rightarrow> (HTTPException + 'r list) \<times> ('v, 'r) graph" where
  "run_cypher g cy ps =
     (let g' = g\<lparr>runs := runs g @ [(cy, ps)]\<rparr> in
      case respond g cy ps of
        Records records \<Rightarrow> (Inr records, g')
      | Raises ex \<Rightarrow>
          if isinstance ex ServiceUnavailable
          then (Inl \<lparr>status_code = 503,
                     detail = py_str ''Neo4j service unavailable: '' @ message ex\<rparr>, g')
          else if isinstance ex Neo4jError
          then (Inl \<lparr>status_code = 400,
                     detail = py_str ''Cypher query error: '' @ message ex\<rparr>, g')
          else (Inl \<lparr>status_code = 500,
                     detail = py_str ''Unexpected error: '' @ message ex\<rparr>, g'))"

text \<open>\<open>proxy.ProxyQueryRequest\<close> and \<open>proxy.ProxyQueryResponse\<close>\<close>

record 'v ProxyQueryRequest =
  cypher :: str
  params :: "(str \<rightharpoonup> 'v) option"

record 'r ProxyQueryResponse =
  success :: bool
  data :: "'r list option"
  error :: "(str \<times> str) list option"

text \<open>
  \<open>proxy.proxy_query_endpoint\<close>. \<open>request.params or {}\<close> is the empty mapping for
  \<open>None\<close> and the mapping itself otherwise (an empty one included).
\<close>

definition proxy_query_endpoint ::
  "('v, 'r) graph \<Rightarrow> 'v ProxyQueryRequest \<Rightarrow> (exn + 'r ProxyQueryResponse) \<times> ('v, 'r) graph" where
  "proxy_query_endpoint g request =
     (if cypher request = [] \<or> strip (cypher request) = []
      then (Inl (HTTP \<lparr>status_code = 400, detail = py_str ''cypher is required''\<rparr>), g)
      else
        case run_cypher g (cypher request)
               (case params request of None \<Rightarrow> Map.empty | Some p \<Rightarrow> p) of
          (Inr result, g') \<Rightarrow>
            (Inr \<lparr>ProxyQueryResponse.success = True,
                  ProxyQueryResponse.data = Some result,
                  error = None\<rparr>, g')
        | (Inl ex, g') \<Rightarrow>
            (Inr \<lparr>ProxyQueryResponse.success = False,
                  ProxyQueryResponse.data = None,
                  error = Some [(py_str ''message'', str_HTTPException ex)]\<rparr>, g'))"

section \<open>Runs of the service\<close>

text \<open>
  The requests that touch the token store, each with what it reads from its surroundings,
  and the database after the service has answered one.
\<close>

datatype request =
    POST_api_embed env EmbedRequest_body
  | GET_api_embed env str
  | GET_view env str

fun serve :: "database \<Rightarrow> request \<Rightarrow> database" where
  "serve db (POST_api_embed e body) = snd (post_api_embed e db body)"
| "serve db (GET_api_embed e t) = snd (get_embed_data e db t)"
| "serve db (GET_view e t) = snd (view_embed e db t)"

section \<open>Basic facts\<close>

declare decimal.simps [simp del]

lemma dropWhile_all_iff: "(\<forall>x\<in>set (dropWhile P xs). P x) \<longleftrightarrow> dropWhile P xs = []"
proof
  assume a: "\<forall>x\<in>set (dropWhile P xs). P x"
  show "dropWhile P xs = []"
  proof (rule ccontr)
    assume n: "dropWhile P xs \<noteq> []"
    then have "\<not> P (hd (dropWhile P xs))" by (rule hd_dropWhile)
    moreover from n have "hd (dropWhile P xs) \<in> set (dropWhile P xs)" by simp
    ultimately show False using a by blast
  qed
qed (auto dest: set_dropWhileD)

lemma strip_blank_iff: "strip q = [] \<longleftrightarrow> list_all isspace q"
  by (simp add: strip_def dropWhile_eq_Nil_conv dropWhile_all_iff list_all_iff)

lemma blank_test: "(q = [] \<or> strip q = []) \<longleftrightarrow> list_all isspace q"
  by (auto simp: strip_blank_iff)

lemma expiry_in_range:
  assumes "1 \<le> n" "is_datetime t" "is_datetime (t + n * 86400000000)"
  shows "timedelta_seconds (n * 24 * 60 * 60) = Inr (n * 86400000000)"
    and "datetime_add t (n * 86400000000) = Inr (t + n * 86400000000)"
proof -
  from assms have "n * 86400000000 < 3652059 * 86400000000"
    by (simp add: is_datetime_def datetime_end_def MAXORDINAL_def)
  then have "n < 3652059" by simp
  moreover have "(n * 24 * 60 * 60) div 86400 = n" by simp
  ultimately show "timedelta_seconds (n * 24 * 60 * 60) = Inr (n * 86400000000)"
    using assms(1) by (simp add: timedelta_seconds_def)
  show "datetime_add t (n * 86400000000) = Inr (t + n * 86400000000)"
    using assms by (simp add: datetime_add_def is_datetime_def)
qed

lemma create_embed_endpoint_reaches_insert:
  assumes "\<not> list_all isspace q" "1 \<le> n" "is_datetime (now e)"
    "is_datetime (now e + n * 86400000000)"
  shows "create_embed_endpoint e db \<lparr>cypherQuery = q, expiresInDays = n\<rparr> =
    (case create_embed e db (uuid4 e) (strip q) (now e + n * 86400000000) of
       (Inl x, db') \<Rightarrow> (Inl x, db')
     | (Inr _, db') \<Rightarrow>
         (Inr \<lparr>response.success = True,
               response.data = \<lparr>embedUrl = (case EMBED_BASE_URL e of None \<Rightarrow> py_str ''http://localhost:8000'' | Some u \<Rightarrow> u)
                                  @ py_str ''/view/'' @ uuid4 e,
                       embedToken = uuid4 e,
                       expiresAt = now e + n * 86400000000,
                       expiresIn = n * 86400\<rparr>\<rparr>, db'))"
proof -
  have nb: "\<not> (q = [] \<or> strip q = [])" using assms(1) by (simp add: blank_test)
  have n0: "n \<noteq> 0" using assms(2) by simp
  show ?thesis
    unfolding create_embed_endpoint_def
    using nb n0 expiry_in_range[OF assms(2-4)]
    by (simp add: Let_def split: prod.splits sum.splits)
qed

lemma create_embed_ok:
  assumes "db_failure e = None" "tok \<notin> set (map embed_token (embed_tokens db))"
  shows "create_embed e db tok q x =
    (Inr \<lparr>embed_token = tok, cypher_query = q, expires_at = x\<rparr>,
     db\<lparr>embed_tokens := embed_tokens db @ [\<lparr>embed_token = tok, cypher_query = q, expires_at = x\<rparr>],
        statements := statements db @ [INSERT \<lparr>embed_token = tok, cypher_query = q, expires_at = x\<rparr>]\<rparr>)"
  using assms by (simp add: create_embed_def commit_def send_def Let_def)

lemma create_embed_fails:
  assumes "fst (commit e db \<lparr>embed_token = tok, cypher_query = q, expires_at = x\<rparr>) = Inl f"
  shows "create_embed e db tok q x =
    (case f of
       SQLAlchemyError m \<Rightarrow>
         (Inl (HTTP \<lparr>status_code = 500, detail = py_str ''Database error: '' @ m\<rparr>),
          db\<lparr>statements := statements db @
               [INSERT \<lparr>embed_token = tok, cypher_query = q, expires_at = x\<rparr>, ROLLBACK]\<rparr>)
     | ConnectionRefused \<Rightarrow> (Inl ConnectionRefusedError, db))"
  using assms
  by (auto simp add: create_embed_def commit_def send_def Let_def
      split: option.splits if_splits db_exception.splits)

lemma create_embed_Inr_iff:
  "(\<exists>r. fst (create_embed e db tok q x) = Inr r) \<longleftrightarrow>
     db_failure e = None \<and> tok \<notin> set (map embed_token (embed_tokens db))"
  by (auto simp add: create_embed_def commit_def send_def Let_def
      split: option.splits if_splits db_exception.splits)

lemma filter_token_none:
  "t \<notin> set (map embed_token rows) \<Longrightarrow> filter (\<lambda>r. embed_token r = t) rows = []"
  by (induction rows) auto

lemma filter_token_unique:
  "distinct (map embed_token rows) \<Longrightarrow> r \<in> set rows \<Longrightarrow>
     filter (\<lambda>x. embed_token x = embed_token r) rows = [r]"
proof (induction rows)
  case Nil
  then show ?case by simp
next
  case (Cons a rows)
  show ?case
  proof (cases "a = r")
    case True
    with Cons.prems have "embed_token r \<notin> set (map embed_token rows)" by simp
    then show ?thesis using True by (simp add: filter_token_none)
  next
    case False
    with Cons.prems have "r \<in> set rows" by simp
    moreover from this Cons.prems have "embed_token a \<noteq> embed_token r" by force
    ultimately show ?thesis using Cons by simp
  qed
qed

lemma filter_token_find:
  "distinct (map embed_token rows) \<Longrightarrow>
     filter (\<lambda>r. embed_token r = t) rows =
       (case find (\<lambda>r. embed_token r = t) rows of None \<Rightarrow> [] | Some r \<Rightarrow> [r])"
proof (induction rows)
  case Nil
  then show ?case by simp
next
  case (Cons a rows)
  then show ?case by (auto simp: filter_token_none)
qed

lemma find_by_token_rows: "embed_tokens (snd (find_by_token e db t)) = embed_tokens db"
  by (simp add: find_by_token_def send_def
      split: option.splits list.splits db_exception.splits)

lemma find_by_token_snd:
  "snd (get_embed_data e db t) = snd (find_by_token e db t)"
  "snd (view_embed e db t) = snd (find_by_token e db t)"
  by (simp_all add: get_embed_data_def view_embed_def
      split: prod.splits sum.splits option.splits bool.splits)

lemma get_embed_data_rows: "embed_tokens (snd (get_embed_data e db t)) = embed_tokens db"
  by (simp add: find_by_token_snd find_by_token_rows)

lemma view_embed_rows: "embed_tokens (snd (view_embed e db t)) = embed_tokens db"
  by (simp add: find_by_token_snd find_by_token_rows)

lemma expired_at_clock:
  "is_datetime t \<Longrightarrow>
     expired_at x t =
       (if x = datetime_min \<or> x = datetime_max then Inl TypeError else Inr (x < t))"
  by (simp add: expired_at_def)

lemma expired_at_before:
  "x < t \<Longrightarrow> x \<noteq> datetime_min \<Longrightarrow> expired_at x t = Inr True"
  by (auto simp add: expired_at_def is_datetime_def datetime_max_def)

lemma find_by_token_cases:
  assumes "distinct (map embed_token (embed_tokens db))"
  shows "fst (find_by_token e db t) =
     (case db_failure e of
        Some ConnectionRefused \<Rightarrow> Inl ConnectionRefusedError
      | Some (SQLAlchemyError m) \<Rightarrow>
          Inl (HTTP \<lparr>status_code = 500, detail = py_str ''Database error: '' @ m\<rparr>)
      | None \<Rightarrow> Inr (find (\<lambda>r. embed_token r = t) (embed_tokens db)))"
  by (simp add: find_by_token_def filter_token_find[OF assms]
      split: option.splits db_exception.splits)

lemma get_embed_data_cases:
  assumes "distinct (map embed_token (embed_tokens db))"
  shows "fst (get_embed_data e db t) =
     (case db_failure e of
        Some ConnectionRefused \<Rightarrow> Inl ConnectionRefusedError
      | Some (SQLAlchemyError m) \<Rightarrow>
          Inl (HTTP \<lparr>status_code = 500, detail = py_str ''Database error: '' @ m\<rparr>)
      | None \<Rightarrow>
          (case find (\<lambda>r. embed_token r = t) (embed_tokens db) of
             None \<Rightarrow> Inl (HTTP \<lparr>status_code = 404, detail = py_str ''Token not found''\<rparr>)
           | Some r \<Rightarrow>
               (case expired_at (expires_at r) (now e) of
                  Inl x \<Rightarrow> Inl x
                | Inr True \<Rightarrow>
                    Inl (HTTP \<lparr>status_code = 410, detail = py_str ''Token expired''\<rparr>)
                | Inr False \<Rightarrow>
                    Inr \<lparr>response.success = True,
                         response.data = \<lparr>TokenData.cypherQuery = cypher_query r, token = t,
                                          TokenData.expiresAt = expires_at r\<rparr>\<rparr>)))"
proof -
  obtain res db' where f: "find_by_token e db t = (res, db')"
    by (cases "find_by_token e db t")
  with find_by_token_cases[OF assms, of e t]
  have r: "res = (case db_failure e of
        Some ConnectionRefused \<Rightarrow> Inl ConnectionRefusedError
      | Some (SQLAlchemyError m) \<Rightarrow>
          Inl (HTTP \<lparr>status_code = 500, detail = py_str ''Database error: '' @ m\<rparr>)
      | None \<Rightarrow> Inr (find (\<lambda>r. embed_token r = t) (embed_tokens db)))"
    by simp
  show ?thesis
    unfolding get_embed_data_def f r
    by (simp split: option.splits db_exception.splits sum.splits bool.splits)
qed

lemma create_embed_rows:
  "embed_tokens (snd (create_embed e db tok q x)) = embed_tokens db \<or>
   (embed_tokens (snd (create_embed e db tok q x)) =
      embed_tokens db @ [\<lparr>embed_token = tok, cypher_query = q, expires_at = x\<rparr>] \<and>
    tok \<notin> set (map embed_token (embed_tokens db)))"
  by (simp add: create_embed_def commit_def send_def Let_def
      split: option.splits db_exception.splits)

lemma create_embed_endpoint_snd:
  "snd (create_embed_endpoint e db rq) = db \<or>
   (\<exists>q x. snd (create_embed_endpoint e db rq) = snd (create_embed e db (uuid4 e) q x))"
proof (cases "EmbedRequest.cypherQuery rq = [] \<or> strip (EmbedRequest.cypherQuery rq) = []")
  case True
  then show ?thesis by (simp add: create_embed_endpoint_def)
next
  case nonblank: False
  define s where "s = (if expiresInDays rq = 0 then 1 else expiresInDays rq) * 24 * 60 * 60"
  show ?thesis
  proof (cases "timedelta_seconds s")
    case (Inl x)
    then show ?thesis
      using nonblank by (simp add: create_embed_endpoint_def Let_def s_def)
  next
    case td: (Inr td)
    show ?thesis
    proof (cases "datetime_add (now e) td")
      case (Inl x)
      then show ?thesis
        using nonblank td by (simp add: create_embed_endpoint_def Let_def s_def)
    next
      case (Inr x)
      then have "snd (create_embed_endpoint e db rq) =
          snd (create_embed e db (uuid4 e) (strip (EmbedRequest.cypherQuery rq)) x)"
        using nonblank td
        by (simp add: create_embed_endpoint_def Let_def s_def split: prod.splits sum.splits)
      then show ?thesis by blast
    qed
  qed
qed

lemma create_embed_endpoint_rows:
  "embed_tokens (snd (create_embed_endpoint e db rq)) = embed_tokens db \<or>
   (\<exists>r. embed_tokens (snd (create_embed_endpoint e db rq)) = embed_tokens db @ [r] \<and>
        embed_token r \<notin> set (map embed_token (embed_tokens db)))"
proof -
  from create_embed_endpoint_snd[of e db rq] show ?thesis
  proof
    assume "snd (create_embed_endpoint e db rq) = db"
    then show ?thesis by simp
  next
    assume "\<exists>q x. snd (create_embed_endpoint e db rq) = snd (create_embed e db (uuid4 e) q x)"
    then obtain q x where
      eq: "snd (create_embed_endpoint e db rq) = snd (create_embed e db (uuid4 e) q x)"
      by blast
    from create_embed_rows[of e db "uuid4 e" q x] show ?thesis
      unfolding eq by force
  qed
qed

lemma serve_rows:
  "embed_tokens (serve db rq) = embed_tokens db \<or>
   (\<exists>r. embed_tokens (serve db rq) = embed_tokens db @ [r] \<and>
        embed_token r \<notin> set (map embed_token (embed_tokens db)))"
proof (cases rq)
  case (POST_api_embed e body)
  then show ?thesis
    using create_embed_endpoint_rows
    by (simp add: post_api_embed_def split: sum.splits)
next
  case (GET_api_embed e t)
  then show ?thesis by (simp add: get_embed_data_rows)
next
  case (GET_view e t)
  then show ?thesis by (simp add: view_embed_rows)
qed

lemma serve_keeps:
  assumes "distinct (map embed_token (embed_tokens db))" "r \<in> set (embed_tokens db)"
  shows "distinct (map embed_token (embed_tokens (serve db rq))) \<and> r \<in> set (embed_tokens (serve db rq))"
  using serve_rows[of db rq] assms by auto

lemma foldl_serve_keeps:
  "distinct (map embed_token (embed_tokens db)) \<Longrightarrow> r \<in> set (embed_tokens db) \<Longrightarrow>
   distinct (map embed_token (embed_tokens (foldl serve db rqs))) \<and>
   r \<in> set (embed_tokens (foldl serve db rqs))"
proof (induction rqs arbitrary: db)
  case Nil
  then show ?case by simp
next
  case (Cons rq rqs)
  from serve_keeps[OF Cons.prems] show ?case
    by (simp add: Cons.IH)
qed

lemma resolve_after_insert:
  assumes fresh: "tok \<notin> set (map embed_token (embed_tokens db))"
    and ok: "db_failure e' = None"
    and live: "now e' \<le> x" and aware: "x \<noteq> datetime_min" "x \<noteq> datetime_max"
  shows "fst (get_embed_data e'
            (db\<lparr>embed_tokens := embed_tokens db @ [\<lparr>embed_token = tok, cypher_query = q, expires_at = x\<rparr>],
                statements := sts\<rparr>) tok) =
         Inr \<lparr>response.success = True,
              response.data = \<lparr>TokenData.cypherQuery = q, token = tok, TokenData.expiresAt = x\<rparr>\<rparr>"
  using assms
  by (simp add: get_embed_data_def find_by_token_def expired_at_def filter_token_none)

text \<open>
  The unique constraint on \<open>embed_token\<close> holds in every database the service can reach
  from an empty table.
\<close>

lemma serve_distinct:
  assumes "distinct (map embed_token (embed_tokens db))"
  shows "distinct (map embed_token (embed_tokens (serve db rq)))"
  using serve_rows[of db rq] assms by auto

lemma foldl_serve_distinct:
  "distinct (map embed_token (embed_tokens db)) \<Longrightarrow>
   distinct (map embed_token (embed_tokens (foldl serve db rqs)))"
  by (induction rqs arbitrary: db) (simp_all add: serve_distinct)

lemma unique_tokens_reachable:
  "distinct (map embed_token (embed_tokens (foldl serve \<lparr>embed_tokens = [], statements = []\<rparr> rqs)))"
  by (rule foldl_serve_distinct) simp

lemma create_embed_Inr:
  assumes "create_embed e db tok q x = (Inr r, db')"
  shows "db' = db\<lparr>embed_tokens := embed_tokens db @ [\<lparr>embed_token = tok, cypher_query = q, expires_at = x\<rparr>],
                  statements := statements db @ [INSERT \<lparr>embed_token = tok, cypher_query = q, expires_at = x\<rparr>]\<rparr>"
proof -
  from assms have "\<exists>r. fst (create_embed e db tok q x) = Inr r" by simp
  with create_embed_Inr_iff[of e db tok q x]
  have "db_failure e = None" "tok \<notin> set (map embed_token (embed_tokens db))"
    by blast+
  from create_embed_ok[OF this, of q x] assms show ?thesis by simp
qed

lemma create_embed_endpoint_Inr:
  assumes "create_embed_endpoint e db \<lparr>cypherQuery = q, expiresInDays = k\<rparr> = (Inr r, db')"
    and "1 \<le> k"
  shows "expiresIn (response.data r) = k * 86400
       \<and> EmbedData.expiresAt (response.data r) = now e + (k * 86400) * 1000000
       \<and> embed_tokens db' = embed_tokens db @
            [\<lparr>embed_token = embedToken (response.data r), cypher_query = strip q,
              expires_at = now e + (k * 86400) * 1000000\<rparr>]"
proof (cases "q = [] \<or> strip q = []")
  case True
  with assms(1) show ?thesis by (simp add: create_embed_endpoint_def)
next
  case nonblank: False
  have k0: "k \<noteq> 0" using assms(2) by simp
  show ?thesis
  proof (cases "timedelta_seconds (k * 24 * 60 * 60)")
    case (Inl x)
    with assms(1) nonblank k0 show ?thesis
      by (simp add: create_embed_endpoint_def Let_def)
  next
    case td: (Inr td)
    then have tdv: "td = (k * 86400) * 1000000"
      by (auto simp: timedelta_seconds_def split: if_splits)
    show ?thesis
    proof (cases "datetime_add (now e) td")
      case (Inl x)
      with assms(1) nonblank k0 td show ?thesis
        by (simp add: create_embed_endpoint_def Let_def)
    next
      case x: (Inr x)
      then have xv: "x = now e + (k * 86400) * 1000000"
        unfolding tdv by (auto simp: datetime_add_def split: if_splits)
      obtain res db1 where ce: "create_embed e db (uuid4 e) (strip q) x = (res, db1)"
        by (cases "create_embed e db (uuid4 e) (strip q) x")
      show ?thesis
      proof (cases res)
        case (Inl y)
        with assms(1) nonblank k0 td x ce show ?thesis
          by (simp add: create_embed_endpoint_def Let_def)
      next
        case (Inr row)
        with assms(1) nonblank k0 td x ce
        have r: "embedToken (response.data r) = uuid4 e"
          "expiresIn (response.data r) = k * 24 * 60 * 60"
          "EmbedData.expiresAt (response.data r) = x" and db': "db' = db1"
          by (auto simp add: create_embed_endpoint_def Let_def)
        from ce Inr have "db1 = db\<lparr>embed_tokens := embed_tokens db @
              [\<lparr>embed_token = uuid4 e, cypher_query = strip q, expires_at = x\<rparr>],
            statements := statements db @
              [INSERT \<lparr>embed_token = uuid4 e, cypher_query = strip q, expires_at = x\<rparr>]\<rparr>"
          by (simp add: create_embed_Inr)
        with r db' xv show ?thesis by simp
      qed
    qed
  qed
qed

section \<open>The claims\<close>

text \<open>
  C1 (as amended). For every query that is not blank and every TTL of at least one day
  whose expiry is a \<open>datetime\<close> other than \<open>datetime.max\<close>, when the insert succeeds (the
  database does not fail and the token is new), resolving the issued token at any time up
  to one day after the creation, with a lookup the database does not fail, returns a
  valid result whose query is the original query with the whitespace at both ends
  removed. (With the expiry \<open>datetime.max\<close> the resolution raises \<open>TypeError\<close>.)
\<close>

theorem C1_resolve_after_create_returns_stripped_query:
  assumes "\<not> list_all isspace q" and "1 \<le> n"
    and "is_datetime (now e)" and "is_datetime (now e + n * 86400000000)"
    and "now e + n * 86400000000 \<noteq> datetime_max"
    and "db_failure e = None" and "uuid4 e \<notin> set (map embed_token (embed_tokens db))"
    and "db_failure e' = None" and "now e' \<le> now e + 86400000000"
  shows "\<exists>r db'. create_embed_endpoint e db \<lparr>cypherQuery = q, expiresInDays = n\<rparr> = (Inr r, db')
      \<and> fst (get_embed_data e' db' (embedToken (response.data r))) =
          Inr \<lparr>response.success = True,
               response.data = \<lparr>TokenData.cypherQuery = strip q,
                                token = embedToken (response.data r),
                                TokenData.expiresAt = EmbedData.expiresAt (response.data r)\<rparr>\<rparr>"
proof -
  have live: "now e' \<le> now e + n * 86400000000"
    using assms(2,9) by simp
  have later: "now e + n * 86400000000 \<noteq> datetime_min"
    using assms(2,3) by (simp add: is_datetime_def datetime_min_def)
  show ?thesis
    unfolding create_embed_endpoint_reaches_insert[OF assms(1-4)]
      create_embed_ok[OF assms(6,7)]
    using resolve_after_insert[OF assms(7,8) live later assms(5)]
    by simp
qed

text \<open>An instance: the query \<open>"  RETURN 1 "\<close> comes back as \<open>"RETURN 1"\<close>.\<close>

theorem C1_resolve_after_create_witness:
  "\<not> list_all isspace (py_str ''  RETURN 1 '') \<and> (1::int) \<le> 7
   \<and> is_datetime 63871286400000000 \<and> is_datetime (63871286400000000 + 7 * 86400000000)
   \<and> 63871286400000000 + 7 * 86400000000 \<noteq> datetime_max
   \<and> (\<exists>r db'. create_embed_endpoint
          \<lparr>now = 63871286400000000, uuid4 = py_str ''t1'', EMBED_BASE_URL = None,
           db_failure = None, unique_violation = py_str ''duplicate key value''\<rparr>
          \<lparr>embed_tokens = [], statements = []\<rparr>
          \<lparr>cypherQuery = py_str ''  RETURN 1 '', expiresInDays = 7\<rparr> = (Inr r, db')
      \<and> fst (get_embed_data
          \<lparr>now = 63871286400000001, uuid4 = py_str ''t2'', EMBED_BASE_URL = None,
           db_failure = None, unique_violation = py_str ''duplicate key value''\<rparr>
          db' (embedToken (response.data r))) =
          Inr \<lparr>response.success = True,
               response.data = \<lparr>TokenData.cypherQuery = py_str ''RETURN 1'',
                                token = py_str ''t1'',
                                TokenData.expiresAt = 63871891200000000\<rparr>\<rparr>)"
proof -
  have s: "strip (py_str ''  RETURN 1 '') = py_str ''RETURN 1''"
    by (simp add: strip_def py_str_def isspace_def)
  have h1: "\<not> list_all isspace (py_str ''  RETURN 1 '')"
    by (simp add: py_str_def isspace_def)
  have h3: "is_datetime 63871286400000000" "is_datetime (63871286400000000 + 7 * 86400000000)"
    "63871286400000000 + 7 * 86400000000 \<noteq> datetime_max"
    by (simp_all add: is_datetime_def datetime_max_def datetime_end_def MAXORDINAL_def)
  from C1_resolve_after_create_returns_stripped_query[of "py_str ''  RETURN 1 ''" 7
      "\<lparr>now = 63871286400000000, uuid4 = py_str ''t1'', EMBED_BASE_URL = None,
        db_failure = None, unique_violation = py_str ''duplicate key value''\<rparr>"
      "\<lparr>embed_tokens = [], statements = []\<rparr>"
      "\<lparr>now = 63871286400000001, uuid4 = py_str ''t2'', EMBED_BASE_URL = None,
        db_failure = None, unique_violation = py_str ''duplicate key value''\<rparr>"]
    h1 h3
  obtain r db' where
    c: "create_embed_endpoint
          \<lparr>now = 63871286400000000, uuid4 = py_str ''t1'', EMBED_BASE_URL = None,
           db_failure = None, unique_violation = py_str ''duplicate key value''\<rparr>
          \<lparr>embed_tokens = [], statements = []\<rparr>
          \<lparr>cypherQuery = py_str ''  RETURN 1 '', expiresInDays = 7\<rparr> = (Inr r, db')"
    and g: "fst (get_embed_data
          \<lparr>now = 63871286400000001, uuid4 = py_str ''t2'', EMBED_BASE_URL = None,
           db_failure = None, unique_violation = py_str ''duplicate key value''\<rparr>
          db' (embedToken (response.data r))) =
          Inr \<lparr>response.success = True,
               response.data = \<lparr>TokenData.cypherQuery = strip (py_str ''  RETURN 1 ''),
                                token = embedToken (response.data r),
                                TokenData.expiresAt = EmbedData.expiresAt (response.data r)\<rparr>\<rparr>"
    by auto
  from c have "embedToken (response.data r) = py_str ''t1''"
    and "EmbedData.expiresAt (response.data r) = 63871891200000000"
    by (auto simp add: create_embed_endpoint_def create_embed_def commit_def send_def
        timedelta_seconds_def datetime_add_def datetime_end_def MAXORDINAL_def
        strip_def isspace_def py_str_def Let_def)
  with c g s h1 h3 show ?thesis by auto
qed

text \<open>
  C1 as stated fails: the query \<open>" a"\<close>, created with a TTL of 7 days and resolved
  at once, comes back as \<open>"a"\<close>.
\<close>

theorem C1_verbatim_counterexample:
  "fst (create_embed_endpoint
          \<lparr>now = 63871286400000000, uuid4 = py_str ''t1'', EMBED_BASE_URL = None,
           db_failure = None, unique_violation = py_str ''duplicate key value''\<rparr>
          \<lparr>embed_tokens = [], statements = []\<rparr>
          \<lparr>cypherQuery = py_str '' a'', expiresInDays = 7\<rparr>) =
     Inr \<lparr>response.success = True,
          response.data = \<lparr>embedUrl = py_str ''http://localhost:8000/view/t1'',
                           embedToken = py_str ''t1'',
                           expiresAt = 63871891200000000,
                           expiresIn = 604800\<rparr>\<rparr>
   \<and> fst (get_embed_data
          \<lparr>now = 63871286400000000, uuid4 = py_str ''t2'', EMBED_BASE_URL = None,
           db_failure = None, unique_violation = py_str ''duplicate key value''\<rparr>
          (snd (create_embed_endpoint
            \<lparr>now = 63871286400000000, uuid4 = py_str ''t1'', EMBED_BASE_URL = None,
             db_failure = None, unique_violation = py_str ''duplicate key value''\<rparr>
            \<lparr>embed_tokens = [], statements = []\<rparr>
            \<lparr>cypherQuery = py_str '' a'', expiresInDays = 7\<rparr>))
          (py_str ''t1'')) =
     Inr \<lparr>response.success = True,
          response.data = \<lparr>TokenData.cypherQuery = py_str ''a'',
                           token = py_str ''t1'',
                           TokenData.expiresAt = 63871891200000000\<rparr>\<rparr>
   \<and> py_str ''a'' \<noteq> py_str '' a''"
  by (simp add: create_embed_endpoint_def create_embed_def commit_def send_def
      get_embed_data_def find_by_token_def expired_at_def is_datetime_def timedelta_seconds_def
      datetime_add_def datetime_min_def datetime_max_def datetime_end_def MAXORDINAL_def
      strip_def isspace_def py_str_def Let_def)

text \<open>
  C2 (as amended). On a table that respects the unique constraint, resolving a token has
  exactly one outcome, the first of these that applies: \<open>ConnectionRefusedError\<close> (HTTP 500)
  when the database server is down; HTTP 500 "Database error: m" when the lookup fails
  with an \<open>SQLAlchemyError\<close> of text \<open>m\<close>; HTTP 404 when no stored record has the token;
  \<open>TypeError\<close> (HTTP 500) when the record's \<open>expires_at\<close> is \<open>datetime.min\<close> or
  \<open>datetime.max\<close>; HTTP 410 when \<open>expires_at\<close> is strictly before \<open>now\<close>; and otherwise
  HTTP 200 carrying the stored query, the token and \<open>expires_at\<close>.
\<close>

theorem C2_resolve_outcomes:
  assumes "distinct (map embed_token (embed_tokens db))" and "is_datetime (now e)"
  shows "fst (get_embed_data e db t) =
     (case db_failure e of
        Some ConnectionRefused \<Rightarrow> Inl ConnectionRefusedError
      | Some (SQLAlchemyError m) \<Rightarrow>
          Inl (HTTP \<lparr>status_code = 500, detail = py_str ''Database error: '' @ m\<rparr>)
      | None \<Rightarrow>
          (case find (\<lambda>r. embed_token r = t) (embed_tokens db) of
             None \<Rightarrow> Inl (HTTP \<lparr>status_code = 404, detail = py_str ''Token not found''\<rparr>)
           | Some r \<Rightarrow>
               if expires_at r = datetime_min \<or> expires_at r = datetime_max then Inl TypeError
               else if expires_at r < now e
               then Inl (HTTP \<lparr>status_code = 410, detail = py_str ''Token expired''\<rparr>)
               else Inr \<lparr>response.success = True,
                         response.data = \<lparr>TokenData.cypherQuery = cypher_query r, token = t,
                                          TokenData.expiresAt = expires_at r\<rparr>\<rparr>))
   \<and> http_status (fst (get_embed_data e db t)) =
     (case db_failure e of
        Some f \<Rightarrow> 500
      | None \<Rightarrow>
          (case find (\<lambda>r. embed_token r = t) (embed_tokens db) of
             None \<Rightarrow> 404
           | Some r \<Rightarrow>
               if expires_at r = datetime_min \<or> expires_at r = datetime_max then 500
               else if expires_at r < now e then 410 else 200))"
  by (simp add: get_embed_data_cases[OF assms(1)] expired_at_clock[OF assms(2)]
      split: option.splits db_exception.splits)

text \<open>
  Instances, on one table on 2025-01-01: an unknown token, an expired one, a live one, the
  two whose expiry is read back naive, and the two failures of the database.
\<close>

theorem C2_resolve_outcomes_witness:
  "distinct (map embed_token
          [\<lparr>embed_token = py_str ''old'', cypher_query = py_str ''RETURN 1'',
              expires_at = 63871200000000000\<rparr>,
            \<lparr>embed_token = py_str ''new'', cypher_query = py_str ''RETURN 2'',
              expires_at = 63871891200000000\<rparr>,
            \<lparr>embed_token = py_str ''max'', cypher_query = py_str ''RETURN 3'',
              expires_at = 315537897599999999\<rparr>,
            \<lparr>embed_token = py_str ''min'', cypher_query = py_str ''RETURN 4'',
              expires_at = 0\<rparr>])
   \<and> is_datetime 63871286400000000
   \<and> fst (get_embed_data
        \<lparr>now = 63871286400000000, uuid4 = [], EMBED_BASE_URL = None,
         db_failure = None, unique_violation = []\<rparr>
        \<lparr>embed_tokens =
           [\<lparr>embed_token = py_str ''old'', cypher_query = py_str ''RETURN 1'',
              expires_at = 63871200000000000\<rparr>,
            \<lparr>embed_token = py_str ''new'', cypher_query = py_str ''RETURN 2'',
              expires_at = 63871891200000000\<rparr>,
            \<lparr>embed_token = py_str ''max'', cypher_query = py_str ''RETURN 3'',
              expires_at = 315537897599999999\<rparr>,
            \<lparr>embed_token = py_str ''min'', cypher_query = py_str ''RETURN 4'',
              expires_at = 0\<rparr>],
         statements = []\<rparr> (py_str ''none'')) =
       Inl (HTTP \<lparr>status_code = 404, detail = py_str ''Token not found''\<rparr>)
   \<and> fst (get_embed_data
        \<lparr>now = 63871286400000000, uuid4 = [], EMBED_BASE_URL = None,
         db_failure = None, unique_violation = []\<rparr>
        \<lparr>embed_tokens =
           [\<lparr>embed_token = py_str ''old'', cypher_query = py_str ''RETURN 1'',
              expires_at = 63871200000000000\<rparr>,
            \<lparr>embed_token = py_str ''new'', cypher_query = py_str ''RETURN 2'',
              expires_at = 63871891200000000\<rparr>,
            \<lparr>embed_token = py_str ''max'', cypher_query = py_str ''RETURN 3'',
              expires_at = 315537897599999999\<rparr>,
            \<lparr>embed_token = py_str ''min'', cypher_query = py_str ''RETURN 4'',
              expires_at = 0\<rparr>],
         statements = []\<rparr> (py_str ''old'')) =
       Inl (HTTP \<lparr>status_code = 410, detail = py_str ''Token expired''\<rparr>)
   \<and> fst (get_embed_data
        \<lparr>now = 63871286400000000, uuid4 = [], EMBED_BASE_URL = None,
         db_failure = None, unique_violation = []\<rparr>
        \<lparr>embed_tokens =
           [\<lparr>embed_token = py_str ''old'', cypher_query = py_str ''RETURN 1'',
              expires_at = 63871200000000000\<rparr>,
            \<lparr>embed_token = py_str ''new'', cypher_query = py_str ''RETURN 2'',
              expires_at = 63871891200000000\<rparr>,
            \<lparr>embed_token = py_str ''max'', cypher_query = py_str ''RETURN 3'',
              expires_at = 315537897599999999\<rparr>,
            \<lparr>embed_token = py_str ''min'', cypher_query = py_str ''RETURN 4'',
              expires_at = 0\<rparr>],
         statements = []\<rparr> (py_str ''new'')) =
       Inr \<lparr>response.success = True,
            response.data = \<lparr>TokenData.cypherQuery = py_str ''RETURN 2'', token = py_str ''new'',
                             TokenData.expiresAt = 63871891200000000\<rparr>\<rparr>
   \<and> fst (get_embed_data
        \<lparr>now = 63871286400000000, uuid4 = [], EMBED_BASE_URL = None,
         db_failure = None, unique_violation = []\<rparr>
        \<lparr>embed_tokens =
           [\<lparr>embed_token = py_str ''old'', cypher_query = py_str ''RETURN 1'',
              expires_at = 63871200000000000\<rparr>,
            \<lparr>embed_token = py_str ''new'', cypher_query = py_str ''RETURN 2'',
              expires_at = 63871891200000000\<rparr>,
            \<lparr>embed_token = py_str ''max'', cypher_query = py_str ''RETURN 3'',
              expires_at = 315537897599999999\<rparr>,
            \<lparr>embed_token = py_str ''min'', cypher_query = py_str ''RETURN 4'',
              expires_at = 0\<rparr>],
         statements = []\<rparr> (py_str ''max'')) = Inl TypeError
   \<and> fst (get_embed_data
        \<lparr>now = 63871286400000000, uuid4 = [], EMBED_BASE_URL = None,
         db_failure = None, unique_violation = []\<rparr>
        \<lparr>embed_tokens =
           [\<lparr>embed_token = py_str ''old'', cypher_query = py_str ''RETURN 1'',
              expires_at = 63871200000000000\<rparr>,
            \<lparr>embed_token = py_str ''new'', cypher_query = py_str ''RETURN 2'',
              expires_at = 63871891200000000\<rparr>,
            \<lparr>embed_token = py_str ''max'', cypher_query = py_str ''RETURN 3'',
              expires_at = 315537897599999999\<rparr>,
            \<lparr>embed_token = py_str ''min'', cypher_query = py_str ''RETURN 4'',
              expires_at = 0\<rparr>],
         statements = []\<rparr> (py_str ''min'')) = Inl TypeError
   \<and> fst (get_embed_data
        \<lparr>now = 63871286400000000, uuid4 = [], EMBED_BASE_URL = None,
         db_failure = Some ConnectionRefused, unique_violation = []\<rparr>
        \<lparr>embed_tokens =
           [\<lparr>embed_token = py_str ''old'', cypher_query = py_str ''RETURN 1'',
              expires_at = 63871200000000000\<rparr>,
            \<lparr>embed_token = py_str ''new'', cypher_query = py_str ''RETURN 2'',
              expires_at = 63871891200000000\<rparr>,
            \<lparr>embed_token = py_str ''max'', cypher_query = py_str ''RETURN 3'',
              expires_at = 315537897599999999\<rparr>,
            \<lparr>embed_token = py_str ''min'', cypher_query = py_str ''RETURN 4'',
              expires_at = 0\<rparr>],
         statements = []\<rparr> (py_str ''new'')) = Inl ConnectionRefusedError
   \<and> fst (get_embed_data
        \<lparr>now = 63871286400000000, uuid4 = [], EMBED_BASE_URL = None,
         db_failure = Some (SQLAlchemyError (py_str ''connection was closed'')), unique_violation = []\<rparr>
        \<lparr>embed_tokens =
           [\<lparr>embed_token = py_str ''old'', cypher_query = py_str ''RETURN 1'',
              expires_at = 63871200000000000\<rparr>,
            \<lparr>embed_token = py_str ''new'', cypher_query = py_str ''RETURN 2'',
              expires_at = 63871891200000000\<rparr>,
            \<lparr>embed_token = py_str ''max'', cypher_query = py_str ''RETURN 3'',
              expires_at = 315537897599999999\<rparr>,
            \<lparr>embed_token = py_str ''min'', cypher_query = py_str ''RETURN 4'',
              expires_at = 0\<rparr>],
         statements = []\<rparr> (py_str ''new'')) =
       Inl (HTTP \<lparr>status_code = 500, detail = py_str ''Database error: connection was closed''\<rparr>)"
proof -
  let ?db = "\<lparr>embed_tokens =
           [\<lparr>embed_token = py_str ''old'', cypher_query = py_str ''RETURN 1'',
              expires_at = 63871200000000000\<rparr>,
            \<lparr>embed_token = py_str ''new'', cypher_query = py_str ''RETURN 2'',
              expires_at = 63871891200000000\<rparr>,
            \<lparr>embed_token = py_str ''max'', cypher_query = py_str ''RETURN 3'',
              expires_at = 315537897599999999\<rparr>,
            \<lparr>embed_token = py_str ''min'', cypher_query = py_str ''RETURN 4'',
              expires_at = 0\<rparr>],
         statements = []\<rparr>"
  let ?e = "\<lparr>now = 63871286400000000, uuid4 = [], EMBED_BASE_URL = None,
         db_failure = None, unique_violation = []\<rparr>"
  let ?e' = "\<lparr>now = 63871286400000000, uuid4 = [], EMBED_BASE_URL = None,
         db_failure = Some ConnectionRefused, unique_violation = []\<rparr>"
  let ?e'' = "\<lparr>now = 63871286400000000, uuid4 = [], EMBED_BASE_URL = None,
         db_failure = Some (SQLAlchemyError (py_str ''connection was closed'')), unique_violation = []\<rparr>"
  have d: "distinct (map embed_token (embed_tokens ?db))"
    by (simp add: py_str_def)
  have c: "is_datetime (now ?e)" "is_datetime (now ?e')" "is_datetime (now ?e'')"
    by (simp_all add: is_datetime_def datetime_end_def MAXORDINAL_def)
  have m: "datetime_max = 315537897599999999" "datetime_min = 0"
    by (simp_all add: datetime_min_def datetime_max_def datetime_end_def MAXORDINAL_def)
  show ?thesis
    using d c(1)
      C2_resolve_outcomes[OF d c(1), of "py_str ''none''"]
      C2_resolve_outcomes[OF d c(1), of "py_str ''old''"]
      C2_resolve_outcomes[OF d c(1), of "py_str ''new''"]
      C2_resolve_outcomes[OF d c(1), of "py_str ''max''"]
      C2_resolve_outcomes[OF d c(1), of "py_str ''min''"]
      C2_resolve_outcomes[OF d c(2), of "py_str ''new''"]
      C2_resolve_outcomes[OF d c(3), of "py_str ''new''"]
    by (simp add: py_str_def m)
qed

text \<open>
  C2 as stated fails: when the database closes the connection during the lookup the
  outcome is HTTP 500, none of the three, although no stored record has the token.
\<close>

theorem C2_storage_failure_counterexample:
  "fst (get_embed_data
        \<lparr>now = 63871286400000000, uuid4 = py_str ''u1'', EMBED_BASE_URL = None,
         db_failure = Some (SQLAlchemyError (py_str ''connection was closed'')),
         unique_violation = py_str ''duplicate key value''\<rparr>
        \<lparr>embed_tokens = [], statements = []\<rparr> (py_str ''none'')) =
     Inl (HTTP \<lparr>status_code = 500, detail = py_str ''Database error: connection was closed''\<rparr>)
   \<and> http_status (fst (get_embed_data
        \<lparr>now = 63871286400000000, uuid4 = py_str ''u1'', EMBED_BASE_URL = None,
         db_failure = Some (SQLAlchemyError (py_str ''connection was closed'')),
         unique_violation = py_str ''duplicate key value''\<rparr>
        \<lparr>embed_tokens = [], statements = []\<rparr> (py_str ''none''))) = 500"
  by (simp add: get_embed_data_def find_by_token_def send_def Let_def py_str_def)

text \<open>
  C3 (as amended). Every exception the driver raises during a proxy execution gets exactly
  one classification, by its class, the handlers being tried in order: an instance of
  \<open>ServiceUnavailable\<close> gives HTTP 503, otherwise an instance of \<open>Neo4jError\<close> gives HTTP
  400, and any other exception gives HTTP 500. The instances of \<open>Neo4jError\<close> are all the
  errors the server reports, a failed authentication and an unavailable database among
  them; a lost connection (\<open>SessionExpired\<close>) is neither. So the classification agrees
  with the one by kind of failure (\<open>spec_category\<close>) on the classes listed last, and on
  no other.
\<close>

theorem C3_classification_by_exception_class:
  assumes "respond g cy ps = Raises ex"
  shows "\<exists>h. fst (run_cypher g cy ps) = Inl h
   \<and> h = (if isinstance ex ServiceUnavailable
          then \<lparr>status_code = 503, detail = py_str ''Neo4j service unavailable: '' @ message ex\<rparr>
          else if isinstance ex Neo4jError
          then \<lparr>status_code = 400, detail = py_str ''Cypher query error: '' @ message ex\<rparr>
          else \<lparr>status_code = 500, detail = py_str ''Unexpected error: '' @ message ex\<rparr>)
   \<and> (isinstance ex ServiceUnavailable \<longleftrightarrow>
        exc_type ex \<in> {ServiceUnavailable, RoutingServiceUnavailable, WriteServiceUnavailable,
                       ReadServiceUnavailable, IncompleteCommit})
   \<and> (isinstance ex Neo4jError \<longleftrightarrow>
        exc_type ex \<in> {Neo4jError, ClientError, CypherSyntaxError, CypherTypeError, AuthError,
                       DatabaseError, TransientError, DatabaseUnavailable})
   \<and> (status_code h = category_status (spec_category (exc_type ex)) \<longleftrightarrow>
        exc_type ex \<in> {ServiceUnavailable, RoutingServiceUnavailable, WriteServiceUnavailable,
                       ReadServiceUnavailable, IncompleteCommit,
                       ClientError, CypherSyntaxError, CypherTypeError,
                       Exception, ValueError, DriverError})"
proof -
  have r: "fst (run_cypher g cy ps) =
     Inl (if isinstance ex ServiceUnavailable
          then \<lparr>status_code = 503, detail = py_str ''Neo4j service unavailable: '' @ message ex\<rparr>
          else if isinstance ex Neo4jError
          then \<lparr>status_code = 400, detail = py_str ''Cypher query error: '' @ message ex\<rparr>
          else \<lparr>status_code = 500, detail = py_str ''Unexpected error: '' @ message ex\<rparr>)"
    using assms by (simp add: run_cypher_def Let_def)
  show ?thesis
    unfolding r by (cases "exc_type ex") (simp_all add: isinstance_def)
qed

text \<open>
  Instances: no server answers (503), a syntax error (400), a failed authentication
  (400), a database that is not available (400), an exception from outside the driver
  (500).
\<close>

theorem C3_classification_witness:
  "fst (run_cypher
      \<lparr>respond = (\<lambda>cy ps. (Raises \<lparr>exc_type = ServiceUnavailable, message = py_str ''down''\<rparr> :: nat run_result)),
       runs = ([] :: (str \<times> (str \<rightharpoonup> nat)) list)\<rparr> (py_str ''RETURN 1'') Map.empty) =
     Inl \<lparr>status_code = 503, detail = py_str ''Neo4j service unavailable: down''\<rparr>
   \<and> fst (run_cypher
      \<lparr>respond = (\<lambda>cy ps. (Raises \<lparr>exc_type = CypherSyntaxError, message = py_str ''syntax''\<rparr> :: nat run_result)),
       runs = ([] :: (str \<times> (str \<rightharpoonup> nat)) list)\<rparr> (py_str ''RETURN'') Map.empty) =
     Inl \<lparr>status_code = 400, detail = py_str ''Cypher query error: syntax''\<rparr>
   \<and> fst (run_cypher
      \<lparr>respond = (\<lambda>cy ps. (Raises \<lparr>exc_type = AuthError, message = py_str ''unauthorized''\<rparr> :: nat run_result)),
       runs = ([] :: (str \<times> (str \<rightharpoonup> nat)) list)\<rparr> (py_str ''RETURN 1'') Map.empty) =
     Inl \<lparr>status_code = 400, detail = py_str ''Cypher query error: unauthorized''\<rparr>
   \<and> fst (run_cypher
      \<lparr>respond = (\<lambda>cy ps. (Raises \<lparr>exc_type = DatabaseUnavailable, message = py_str ''offline''\<rparr> :: nat run_result)),
       runs = ([] :: (str \<times> (str \<rightharpoonup> nat)) list)\<rparr> (py_str ''RETURN 1'') Map.empty) =
     Inl \<lparr>status_code = 400, detail = py_str ''Cypher query error: offline''\<rparr>
   \<and> fst (run_cypher
      \<lparr>respond = (\<lambda>cy ps. (Raises \<lparr>exc_type = ValueError, message = py_str ''boom''\<rparr> :: nat run_result)),
       runs = ([] :: (str \<times> (str \<rightharpoonup> nat)) list)\<rparr> (py_str ''RETURN 1'') Map.empty) =
     Inl \<lparr>status_code = 500, detail = py_str ''Unexpected error: boom''\<rparr>"
  using
    C3_classification_by_exception_class[of
      "\<lparr>respond = (\<lambda>cy ps. (Raises \<lparr>exc_type = ServiceUnavailable, message = py_str ''down''\<rparr> :: nat run_result)),
        runs = ([] :: (str \<times> (str \<rightharpoonup> nat)) list)\<rparr>" "py_str ''RETURN 1''" Map.empty
      "\<lparr>exc_type = ServiceUnavailable, message = py_str ''down''\<rparr>"]
    C3_classification_by_exception_class[of
      "\<lparr>respond = (\<lambda>cy ps. (Raises \<lparr>exc_type = CypherSyntaxError, message = py_str ''syntax''\<rparr> :: nat run_result)),
        runs = ([] :: (str \<times> (str \<rightharpoonup> nat)) list)\<rparr>" "py_str ''RETURN''" Map.empty
      "\<lparr>exc_type = CypherSyntaxError, message = py_str ''syntax''\<rparr>"]
    C3_classification_by_exception_class[of
      "\<lparr>respond = (\<lambda>cy ps. (Raises \<lparr>exc_type = AuthError, message = py_str ''unauthorized''\<rparr> :: nat run_result)),
        runs = ([] :: (str \<times> (str \<rightharpoonup> nat)) list)\<rparr>" "py_str ''RETURN 1''" Map.empty
      "\<lparr>exc_type = AuthError, message = py_str ''unauthorized''\<rparr>"]
    C3_classification_by_exception_class[of
      "\<lparr>respond = (\<lambda>cy ps. (Raises \<lparr>exc_type = DatabaseUnavailable, message = py_str ''offline''\<rparr> :: nat run_result)),
        runs = ([] :: (str \<times> (str \<rightharpoonup> nat)) list)\<rparr>" "py_str ''RETURN 1''" Map.empty
      "\<lparr>exc_type = DatabaseUnavailable, message = py_str ''offline''\<rparr>"]
    C3_classification_by_exception_class[of
      "\<lparr>respond = (\<lambda>cy ps. (Raises \<lparr>exc_type = ValueError, message = py_str ''boom''\<rparr> :: nat run_result)),
        runs = ([] :: (str \<times> (str \<rightharpoonup> nat)) list)\<rparr>" "py_str ''RETURN 1''" Map.empty
      "\<lparr>exc_type = ValueError, message = py_str ''boom''\<rparr>"]
  by (simp add: isinstance_def py_str_def)

text \<open>
  C3 as stated fails: a session whose connection is lost raises \<open>SessionExpired\<close>, a
  connection-level failure, and gets HTTP 500, not 503.
\<close>

theorem C3_connection_lost_counterexample:
  "spec_category SessionExpired = Unavailable
   \<and> category_status (spec_category SessionExpired) = 503
   \<and> fst (run_cypher
      \<lparr>respond = (\<lambda>cy ps. (Raises \<lparr>exc_type = SessionExpired, message = py_str ''connection lost''\<rparr> :: nat run_result)),
       runs = ([] :: (str \<times> (str \<rightharpoonup> nat)) list)\<rparr> (py_str ''RETURN 1'') Map.empty) =
     Inl \<lparr>status_code = 500, detail = py_str ''Unexpected error: connection lost''\<rparr>"
  by (simp add: run_cypher_def isinstance_def py_str_def)

text \<open>
  C4 (as amended). For every query that is not blank and every \<open>ttlDays \<ge> 1\<close> for which
  \<open>now + ttlDays * 86400\<close> seconds is still a \<open>datetime\<close>, whenever \<open>createEmbed\<close> returns,
  \<open>expiresIn\<close> is \<open>ttlDays * 86400\<close>, \<open>expiresAt\<close> is \<open>now\<close> plus that many seconds, and the
  row stored carries this expiry; and it returns exactly when the insert succeeds.
\<close>

theorem C4_expiry_is_now_plus_ttl_days:
  assumes "\<not> list_all isspace q" and "1 \<le> n"
    and "is_datetime (now e)" and "is_datetime (now e + (n * 86400) * 1000000)"
  shows "(\<forall>r db'. create_embed_endpoint e db \<lparr>cypherQuery = q, expiresInDays = n\<rparr> = (Inr r, db') \<longrightarrow>
            expiresIn (response.data r) = n * 86400
          \<and> EmbedData.expiresAt (response.data r) = now e + (n * 86400) * 1000000
          \<and> embed_tokens db' = embed_tokens db @
               [\<lparr>embed_token = embedToken (response.data r), cypher_query = strip q,
                 expires_at = now e + (n * 86400) * 1000000\<rparr>])
     \<and> ((\<exists>r db'. create_embed_endpoint e db \<lparr>cypherQuery = q, expiresInDays = n\<rparr> = (Inr r, db')) \<longleftrightarrow>
          db_failure e = None \<and> uuid4 e \<notin> set (map embed_token (embed_tokens db)))"
proof -
  have ar: "(n * 86400) * 1000000 = n * 86400000000" by simp
  have dt: "is_datetime (now e + n * 86400000000)" using assms(4) unfolding ar .
  note eq = create_embed_endpoint_reaches_insert[OF assms(1,2,3) dt, of db]
  show ?thesis
  proof (cases "db_failure e = None \<and> uuid4 e \<notin> set (map embed_token (embed_tokens db))")
    case True
    then show ?thesis
      unfolding eq by (simp add: create_embed_ok)
  next
    case False
    then have "\<not> (\<exists>r. fst (create_embed e db (uuid4 e) (strip q) (now e + n * 86400000000)) = Inr r)"
      by (simp only: create_embed_Inr_iff not_False_eq_True)
    then have "\<And>r db'. create_embed_endpoint e db \<lparr>cypherQuery = q, expiresInDays = n\<rparr> \<noteq> (Inr r, db')"
      unfolding eq by (auto split: prod.splits sum.splits)
    with False show ?thesis by blast
  qed
qed

text \<open>An instance: \<open>expiresInDays = 7\<close> gives \<open>expiresIn = 604800\<close>.\<close>

theorem C4_seven_days_witness:
  "\<not> list_all isspace (py_str ''MATCH (n) RETURN n LIMIT 1'') \<and> (1::int) \<le> 7
   \<and> is_datetime 63871286400000000 \<and> is_datetime (63871286400000000 + (7 * 86400) * 1000000)
   \<and> (\<exists>r db'. create_embed_endpoint
          \<lparr>now = 63871286400000000, uuid4 = py_str ''t1'', EMBED_BASE_URL = None,
           db_failure = None, unique_violation = py_str ''duplicate key value''\<rparr>
          \<lparr>embed_tokens = [], statements = []\<rparr>
          \<lparr>cypherQuery = py_str ''MATCH (n) RETURN n LIMIT 1'', expiresInDays = 7\<rparr> = (Inr r, db')
        \<and> expiresIn (response.data r) = 604800
        \<and> EmbedData.expiresAt (response.data r) = 63871891200000000)"
proof -
  let ?q = "py_str ''MATCH (n) RETURN n LIMIT 1''"
  let ?e = "\<lparr>now = 63871286400000000, uuid4 = py_str ''t1'', EMBED_BASE_URL = None,
             db_failure = None, unique_violation = py_str ''duplicate key value''\<rparr>"
  let ?db = "\<lparr>embed_tokens = [], statements = []\<rparr>"
  have h1: "\<not> list_all isspace ?q" by (simp add: py_str_def isspace_def)
  have h2: "(1::int) \<le> 7" by simp
  have h3: "is_datetime (now ?e)" by (simp add: is_datetime_def datetime_end_def MAXORDINAL_def)
  have h4: "is_datetime (now ?e + (7 * 86400) * 1000000)"
    by (simp add: is_datetime_def datetime_end_def MAXORDINAL_def)
  note t = C4_expiry_is_now_plus_ttl_days[OF h1 h2 h3 h4, of ?db]
  from t have "\<exists>r db'. create_embed_endpoint ?e ?db \<lparr>cypherQuery = ?q, expiresInDays = 7\<rparr> = (Inr r, db')"
    by simp
  then obtain r db' where c: "create_embed_endpoint ?e ?db \<lparr>cypherQuery = ?q, expiresInDays = 7\<rparr> = (Inr r, db')"
    by blast
  with t have "expiresIn (response.data r) = 7 * 86400"
    and "EmbedData.expiresAt (response.data r) = now ?e + (7 * 86400) * 1000000"
    by blast+
  with c h1 h3 h4 show ?thesis by auto
qed

text \<open>
  C4 as stated fails: on 2025-01-01 a TTL of 3000000 days leads past the year 9999;
  the addition raises \<open>OverflowError\<close> and nothing is returned.
\<close>

theorem C4_overflow_counterexample:
  "\<not> list_all isspace (py_str ''RETURN 1'') \<and> (1::int) \<le> 3000000
   \<and> create_embed_endpoint
        \<lparr>now = 63871286400000000, uuid4 = py_str ''t1'', EMBED_BASE_URL = None,
         db_failure = None, unique_violation = py_str ''duplicate key value''\<rparr>
        \<lparr>embed_tokens = [], statements = []\<rparr>
        \<lparr>cypherQuery = py_str ''RETURN 1'', expiresInDays = 3000000\<rparr> =
      (Inl OverflowError, \<lparr>embed_tokens = [], statements = []\<rparr>)"
  by (simp add: create_embed_endpoint_def timedelta_seconds_def datetime_add_def
      datetime_end_def MAXORDINAL_def strip_def isspace_def py_str_def Let_def)

text \<open>
  C5. \<open>createEmbed\<close> and the proxy's \<open>execute\<close>, applied to an empty or all-whitespace
  query, both fail with HTTP 400 before anything is sent to the token store or to the
  graph database: the database (its rows and the statements sent) and the graph session
  are returned as they were, so no token is persisted.
\<close>

theorem C5_blank_query_rejected_before_io:
  assumes "list_all isspace q"
  shows "create_embed_endpoint e db \<lparr>cypherQuery = q, expiresInDays = n\<rparr> =
           (Inl (HTTP \<lparr>status_code = 400, detail = py_str ''cypherQuery is required''\<rparr>), db)
       \<and> proxy_query_endpoint g \<lparr>cypher = q, params = ps\<rparr> =
           (Inl (HTTP \<lparr>status_code = 400, detail = py_str ''cypher is required''\<rparr>), g)"
  using assms by (simp add: create_embed_endpoint_def proxy_query_endpoint_def strip_blank_iff)

text \<open>Instances: the empty query and a query of three spaces.\<close>

theorem C5_blank_query_witness:
  "list_all isspace [] \<and> list_all isspace (py_str ''   '')
   \<and> create_embed_endpoint
        \<lparr>now = 63871286400000000, uuid4 = py_str ''t1'', EMBED_BASE_URL = None,
         db_failure = None, unique_violation = py_str ''duplicate key value''\<rparr>
        \<lparr>embed_tokens = [], statements = []\<rparr>
        \<lparr>cypherQuery = [], expiresInDays = 7\<rparr> =
      (Inl (HTTP \<lparr>status_code = 400, detail = py_str ''cypherQuery is required''\<rparr>),
       \<lparr>embed_tokens = [], statements = []\<rparr>)
   \<and> create_embed_endpoint
        \<lparr>now = 63871286400000000, uuid4 = py_str ''t1'', EMBED_BASE_URL = None,
         db_failure = None, unique_violation = py_str ''duplicate key value''\<rparr>
        \<lparr>embed_tokens = [], statements = []\<rparr>
        \<lparr>cypherQuery = py_str ''   '', expiresInDays = 7\<rparr> =
      (Inl (HTTP \<lparr>status_code = 400, detail = py_str ''cypherQuery is required''\<rparr>),
       \<lparr>embed_tokens = [], statements = []\<rparr>)
   \<and> runs (snd (proxy_query_endpoint
        \<lparr>respond = (\<lambda>cy ps. (Records [1] :: nat run_result)),
         runs = ([] :: (str \<times> (str \<rightharpoonup> nat)) list)\<rparr>
        \<lparr>cypher = py_str ''   '', params = None\<rparr>)) = []
   \<and> http_status (fst (proxy_query_endpoint
        \<lparr>respond = (\<lambda>cy ps. (Records [1] :: nat run_result)),
         runs = ([] :: (str \<times> (str \<rightharpoonup> nat)) list)\<rparr>
        \<lparr>cypher = py_str ''   '', params = None\<rparr>)) = 400"
proof -
  have b0: "list_all isspace []" by simp
  have b3: "list_all isspace (py_str ''   '')" by (simp add: py_str_def isspace_def)
  from b0 b3
    C5_blank_query_rejected_before_io[OF b0, of
      "\<lparr>now = 63871286400000000, uuid4 = py_str ''t1'', EMBED_BASE_URL = None,
        db_failure = None, unique_violation = py_str ''duplicate key value''\<rparr>"
      "\<lparr>embed_tokens = [], statements = []\<rparr>" 7
      "\<lparr>respond = (\<lambda>cy ps. (Records [1] :: nat run_result)),
        runs = ([] :: (str \<times> (str \<rightharpoonup> nat)) list)\<rparr>" None]
    C5_blank_query_rejected_before_io[OF b3, of
      "\<lparr>now = 63871286400000000, uuid4 = py_str ''t1'', EMBED_BASE_URL = None,
        db_failure = None, unique_violation = py_str ''duplicate key value''\<rparr>"
      "\<lparr>embed_tokens = [], statements = []\<rparr>" 7
      "\<lparr>respond = (\<lambda>cy ps. (Records [1] :: nat run_result)),
        runs = ([] :: (str \<times> (str \<rightharpoonup> nat)) list)\<rparr>" None]
  show ?thesis by simp
qed

text \<open>
  C6 (as amended). Whenever the insert fails, \<open>createEmbed\<close> issues no token, leaves the
  rows of the table as they were, and the caller gets HTTP 500, not 503: for an
  \<open>SQLAlchemyError\<close> of text \<open>m\<close> it is \<open>HTTPException(500, "Database error: " + m)\<close>, raised
  after the insert and a rollback were sent; for a server that is down it is the
  \<open>ConnectionRefusedError\<close> itself, which nothing catches, and no statement was sent. An
  insert fails in no other way: the failure is the refused connection, the violated
  unique constraint, or the failure the database has of its own.
\<close>

theorem C6_insert_failure_is_500_and_store_unchanged:
  assumes "\<not> list_all isspace q" and "1 \<le> n"
    and "is_datetime (now e)" and "is_datetime (now e + (n * 86400) * 1000000)"
    and "fst (commit e db \<lparr>embed_token = uuid4 e, cypher_query = strip q,
                            expires_at = now e + (n * 86400) * 1000000\<rparr>) = Inl f"
  shows "create_embed_endpoint e db \<lparr>cypherQuery = q, expiresInDays = n\<rparr> =
           (case f of
              SQLAlchemyError m \<Rightarrow>
                (Inl (HTTP \<lparr>status_code = 500, detail = py_str ''Database error: '' @ m\<rparr>),
                 db\<lparr>statements := statements db @
                      [INSERT \<lparr>embed_token = uuid4 e, cypher_query = strip q,
                               expires_at = now e + (n * 86400) * 1000000\<rparr>, ROLLBACK]\<rparr>)
            | ConnectionRefused \<Rightarrow> (Inl ConnectionRefusedError, db))
     \<and> embed_tokens (snd (create_embed_endpoint e db \<lparr>cypherQuery = q, expiresInDays = n\<rparr>)) =
         embed_tokens db
     \<and> http_status (fst (create_embed_endpoint e db \<lparr>cypherQuery = q, expiresInDays = n\<rparr>)) = 500
     \<and> (f = ConnectionRefused \<or> f = SQLAlchemyError (unique_violation e)
          \<or> db_failure e = Some f)"
proof -
  have ar: "(n * 86400) * 1000000 = n * 86400000000" by simp
  have dt: "is_datetime (now e + n * 86400000000)" using assms(4) unfolding ar .
  note eq = create_embed_endpoint_reaches_insert[OF assms(1,2,3) dt, of db]
  note f = create_embed_fails[OF assms(5)[unfolded ar]]
  have k: "f = ConnectionRefused \<or> f = SQLAlchemyError (unique_violation e) \<or> db_failure e = Some f"
    using assms(5)
    by (auto simp: commit_def split: option.splits db_exception.splits if_splits)
  show ?thesis
    unfolding eq ar f using k by (cases f) simp_all
qed

text \<open>
  Instances: the database closes the connection, the server is down, and the fresh token
  is already in the table.
\<close>

theorem C6_insert_failure_witness:
  "\<not> list_all isspace (py_str ''RETURN 1'') \<and> (1::int) \<le> 7
   \<and> is_datetime 63871286400000000 \<and> is_datetime (63871286400000000 + (7 * 86400) * 1000000)
   \<and> create_embed_endpoint
        \<lparr>now = 63871286400000000, uuid4 = py_str ''t1'', EMBED_BASE_URL = None,
         db_failure = Some (SQLAlchemyError (py_str ''connection was closed'')),
         unique_violation = py_str ''duplicate key value''\<rparr>
        \<lparr>embed_tokens = [], statements = []\<rparr>
        \<lparr>cypherQuery = py_str ''RETURN 1'', expiresInDays = 7\<rparr> =
      (Inl (HTTP \<lparr>status_code = 500, detail = py_str ''Database error: connection was closed''\<rparr>),
       \<lparr>embed_tokens = [],
        statements = [INSERT \<lparr>embed_token = py_str ''t1'', cypher_query = py_str ''RETURN 1'',
                              expires_at = 63871891200000000\<rparr>, ROLLBACK]\<rparr>)
   \<and> create_embed_endpoint
        \<lparr>now = 63871286400000000, uuid4 = py_str ''t1'', EMBED_BASE_URL = None,
         db_failure = Some ConnectionRefused,
         unique_violation = py_str ''duplicate key value''\<rparr>
        \<lparr>embed_tokens = [], statements = []\<rparr>
        \<lparr>cypherQuery = py_str ''RETURN 1'', expiresInDays = 7\<rparr> =
      (Inl ConnectionRefusedError, \<lparr>embed_tokens = [], statements = []\<rparr>)
   \<and> create_embed_endpoint
        \<lparr>now = 63871286400000000, uuid4 = py_str ''t1'', EMBED_BASE_URL = None,
         db_failure = None,
         unique_violation = py_str ''duplicate key value''\<rparr>
        \<lparr>embed_tokens = [\<lparr>embed_token = py_str ''t1'', cypher_query = py_str ''RETURN 0'',
                          expires_at = 63871891200000000\<rparr>],
         statements = []\<rparr>
        \<lparr>cypherQuery = py_str ''RETURN 1'', expiresInDays = 7\<rparr> =
      (Inl (HTTP \<lparr>status_code = 500, detail = py_str ''Database error: duplicate key value''\<rparr>),
       \<lparr>embed_tokens = [\<lparr>embed_token = py_str ''t1'', cypher_query = py_str ''RETURN 0'',
                          expires_at = 63871891200000000\<rparr>],
        statements = [INSERT \<lparr>embed_token = py_str ''t1'', cypher_query = py_str ''RETURN 1'',
                              expires_at = 63871891200000000\<rparr>, ROLLBACK]\<rparr>)"
proof -
  let ?q = "py_str ''RETURN 1''"
  let ?e = "\<lparr>now = 63871286400000000, uuid4 = py_str ''t1'', EMBED_BASE_URL = None,
         db_failure = Some (SQLAlchemyError (py_str ''connection was closed'')),
         unique_violation = py_str ''duplicate key value''\<rparr>"
  let ?e' = "\<lparr>now = 63871286400000000, uuid4 = py_str ''t1'', EMBED_BASE_URL = None,
         db_failure = Some ConnectionRefused,
         unique_violation = py_str ''duplicate key value''\<rparr>"
  let ?e'' = "\<lparr>now = 63871286400000000, uuid4 = py_str ''t1'', EMBED_BASE_URL = None,
         db_failure = None,
         unique_violation = py_str ''duplicate key value''\<rparr>"
  let ?db = "\<lparr>embed_tokens = [], statements = []\<rparr>"
  let ?db'' = "\<lparr>embed_tokens = [\<lparr>embed_token = py_str ''t1'', cypher_query = py_str ''RETURN 0'',
                          expires_at = 63871891200000000\<rparr>],
         statements = []\<rparr>"
  have h1: "\<not> list_all isspace ?q" by (simp add: py_str_def isspace_def)
  have h2: "(1::int) \<le> 7" by simp
  have h3: "is_datetime (now ?e)" "is_datetime (now ?e')" "is_datetime (now ?e'')"
    by (simp_all add: is_datetime_def datetime_end_def MAXORDINAL_def)
  have h4: "is_datetime (now ?e + (7 * 86400) * 1000000)"
    "is_datetime (now ?e' + (7 * 86400) * 1000000)"
    "is_datetime (now ?e'' + (7 * 86400) * 1000000)"
    by (simp_all add: is_datetime_def datetime_end_def MAXORDINAL_def)
  have h5'': "fst (commit ?e'' ?db'' \<lparr>embed_token = uuid4 ?e'', cypher_query = strip ?q,
                            expires_at = now ?e'' + (7 * 86400) * 1000000\<rparr>) =
            Inl (SQLAlchemyError (py_str ''duplicate key value''))"
    by (simp add: commit_def)
  have h5: "fst (commit ?e ?db \<lparr>embed_token = uuid4 ?e, cypher_query = strip ?q,
                            expires_at = now ?e + (7 * 86400) * 1000000\<rparr>) =
            Inl (SQLAlchemyError (py_str ''connection was closed''))"
    by (simp add: commit_def)
  have h5': "fst (commit ?e' ?db \<lparr>embed_token = uuid4 ?e', cypher_query = strip ?q,
                            expires_at = now ?e' + (7 * 86400) * 1000000\<rparr>) =
            Inl ConnectionRefused"
    by (simp add: commit_def)
  have s: "strip ?q = ?q" by (simp add: strip_def py_str_def isspace_def)
  from C6_insert_failure_is_500_and_store_unchanged[OF h1 h2 h3(1) h4(1) h5]
    C6_insert_failure_is_500_and_store_unchanged[OF h1 h2 h3(2) h4(2) h5']
    C6_insert_failure_is_500_and_store_unchanged[OF h1 h2 h3(3) h4(3) h5'']
    h1 h3 h4 s
  show ?thesis by (simp add: py_str_def)
qed

text \<open>
  C6 as stated fails: when the fresh token is already in the table, the error that
  reaches the caller has status 500, not 503.
\<close>

theorem C6_status_counterexample:
  "fst (create_embed_endpoint
        \<lparr>now = 63871286400000000, uuid4 = py_str ''t1'', EMBED_BASE_URL = None,
         db_failure = None, unique_violation = py_str ''duplicate key value''\<rparr>
        \<lparr>embed_tokens = [\<lparr>embed_token = py_str ''t1'', cypher_query = py_str ''RETURN 0'',
                          expires_at = 63871891200000000\<rparr>],
         statements = []\<rparr>
        \<lparr>cypherQuery = py_str ''RETURN 1'', expiresInDays = 7\<rparr>) =
      Inl (HTTP \<lparr>status_code = 500, detail = py_str ''Database error: duplicate key value''\<rparr>)
   \<and> http_status (fst (create_embed_endpoint
        \<lparr>now = 63871286400000000, uuid4 = py_str ''t1'', EMBED_BASE_URL = None,
         db_failure = None, unique_violation = py_str ''duplicate key value''\<rparr>
        \<lparr>embed_tokens = [\<lparr>embed_token = py_str ''t1'', cypher_query = py_str ''RETURN 0'',
                          expires_at = 63871891200000000\<rparr>],
         statements = []\<rparr>
        \<lparr>cypherQuery = py_str ''RETURN 1'', expiresInDays = 7\<rparr>)) \<noteq> 503"
  by (simp add: create_embed_endpoint_def create_embed_def commit_def send_def
      timedelta_seconds_def datetime_add_def datetime_end_def MAXORDINAL_def
      strip_def isspace_def py_str_def Let_def)

text \<open>
  C7. A body without \<open>expiresInDays\<close> is validated to a request with 7 days, and any token
  issued for it is stored with the expiry \<open>now\<close> plus 7 days; a body whose
  \<open>expiresInDays\<close> is below 1 is rejected with a validation error and the store is left
  alone; and the endpoint, given a request whose \<open>expiresInDays\<close> is 0, behaves exactly
  as for 1: any token it issues has \<open>expiresIn = 86400\<close> and is stored with the expiry
  \<open>now\<close> plus one day, never \<open>now\<close> itself, and it does issue one whenever the query is not
  blank, the day after \<open>now\<close> is a \<open>datetime\<close> and the insert succeeds.
\<close>

theorem C7_ttl_default_rejection_and_zero_fallback:
  "EmbedRequest_validate \<lparr>cypherQuery_field = Some q, expiresInDays_field = None\<rparr> =
     Inr \<lparr>cypherQuery = q, expiresInDays = 7\<rparr>
   \<and> post_api_embed e db \<lparr>cypherQuery_field = Some q, expiresInDays_field = None\<rparr> =
     create_embed_endpoint e db \<lparr>cypherQuery = q, expiresInDays = 7\<rparr>
   \<and> (\<forall>r db'. post_api_embed e db \<lparr>cypherQuery_field = Some q, expiresInDays_field = None\<rparr> =
                 (Inr r, db') \<longrightarrow>
          expiresIn (response.data r) = 7 * 86400
        \<and> embed_tokens db' = embed_tokens db @
             [\<lparr>embed_token = embedToken (response.data r), cypher_query = strip q,
               expires_at = now e + (7 * 86400) * 1000000\<rparr>])
   \<and> (n < 1 \<longrightarrow>
        (\<exists>errs. EmbedRequest_validate \<lparr>cypherQuery_field = qo, expiresInDays_field = Some n\<rparr> =
                  Inl (RequestValidationError errs)
              \<and> post_api_embed e db \<lparr>cypherQuery_field = qo, expiresInDays_field = Some n\<rparr> =
                  (Inl (RequestValidationError errs), db)))
   \<and> create_embed_endpoint e db \<lparr>cypherQuery = q, expiresInDays = 0\<rparr> =
     create_embed_endpoint e db \<lparr>cypherQuery = q, expiresInDays = 1\<rparr>
   \<and> (\<forall>r db'. create_embed_endpoint e db \<lparr>cypherQuery = q, expiresInDays = 0\<rparr> = (Inr r, db') \<longrightarrow>
          expiresIn (response.data r) = 86400
        \<and> EmbedData.expiresAt (response.data r) = now e + 86400 * 1000000
        \<and> embed_tokens db' = embed_tokens db @
             [\<lparr>embed_token = embedToken (response.data r), cypher_query = strip q,
               expires_at = now e + 86400 * 1000000\<rparr>])
   \<and> (\<not> list_all isspace q \<and> is_datetime (now e) \<and> is_datetime (now e + 86400 * 1000000)
        \<and> db_failure e = None \<and> uuid4 e \<notin> set (map embed_token (embed_tokens db)) \<longrightarrow>
        (\<exists>r db'. create_embed_endpoint e db \<lparr>cypherQuery = q, expiresInDays = 0\<rparr> = (Inr r, db')))"
proof -
  have a: "EmbedRequest_validate \<lparr>cypherQuery_field = Some q, expiresInDays_field = None\<rparr> =
     Inr \<lparr>cypherQuery = q, expiresInDays = 7\<rparr>"
    by (simp add: EmbedRequest_validate_def)
  have p: "post_api_embed e db \<lparr>cypherQuery_field = Some q, expiresInDays_field = None\<rparr> =
     create_embed_endpoint e db \<lparr>cypherQuery = q, expiresInDays = 7\<rparr>"
    by (simp add: post_api_embed_def a)
  have d7: "\<forall>r db'. post_api_embed e db \<lparr>cypherQuery_field = Some q, expiresInDays_field = None\<rparr> =
                 (Inr r, db') \<longrightarrow>
          expiresIn (response.data r) = 7 * 86400
        \<and> embed_tokens db' = embed_tokens db @
             [\<lparr>embed_token = embedToken (response.data r), cypher_query = strip q,
               expires_at = now e + (7 * 86400) * 1000000\<rparr>]"
  proof (intro allI impI)
    fix r db'
    assume "post_api_embed e db \<lparr>cypherQuery_field = Some q, expiresInDays_field = None\<rparr> =
      (Inr r, db')"
    then have h: "create_embed_endpoint e db \<lparr>cypherQuery = q, expiresInDays = 7\<rparr> = (Inr r, db')"
      unfolding p .
    have seven: "(1::int) \<le> 7" by simp
    from create_embed_endpoint_Inr[OF h seven]
    show "expiresIn (response.data r) = 7 * 86400
        \<and> embed_tokens db' = embed_tokens db @
             [\<lparr>embed_token = embedToken (response.data r), cypher_query = strip q,
               expires_at = now e + (7 * 86400) * 1000000\<rparr>]"
      by blast
  qed
  have b: "n < 1 \<longrightarrow>
        (\<exists>errs. EmbedRequest_validate \<lparr>cypherQuery_field = qo, expiresInDays_field = Some n\<rparr> =
                  Inl (RequestValidationError errs)
              \<and> post_api_embed e db \<lparr>cypherQuery_field = qo, expiresInDays_field = Some n\<rparr> =
                  (Inl (RequestValidationError errs), db))"
    by (cases qo) (simp_all add: EmbedRequest_validate_def post_api_embed_def)
  have c: "create_embed_endpoint e db \<lparr>cypherQuery = q, expiresInDays = 0\<rparr> =
     create_embed_endpoint e db \<lparr>cypherQuery = q, expiresInDays = 1\<rparr>"
    by (simp add: create_embed_endpoint_def Let_def split: sum.splits prod.splits)
  have d: "\<forall>r db'. create_embed_endpoint e db \<lparr>cypherQuery = q, expiresInDays = 0\<rparr> = (Inr r, db') \<longrightarrow>
          expiresIn (response.data r) = 86400
        \<and> EmbedData.expiresAt (response.data r) = now e + 86400 * 1000000
        \<and> embed_tokens db' = embed_tokens db @
             [\<lparr>embed_token = embedToken (response.data r), cypher_query = strip q,
               expires_at = now e + 86400 * 1000000\<rparr>]"
  proof (intro allI impI)
    fix r db'
    assume "create_embed_endpoint e db \<lparr>cypherQuery = q, expiresInDays = 0\<rparr> = (Inr r, db')"
    then have h: "create_embed_endpoint e db \<lparr>cypherQuery = q, expiresInDays = 1\<rparr> = (Inr r, db')"
      unfolding c .
    have one: "(1::int) \<le> 1" by simp
    have m: "(1 * 86400 :: int) = 86400" by simp
    from create_embed_endpoint_Inr[OF h one]
    show "expiresIn (response.data r) = 86400
        \<and> EmbedData.expiresAt (response.data r) = now e + 86400 * 1000000
        \<and> embed_tokens db' = embed_tokens db @
             [\<lparr>embed_token = embedToken (response.data r), cypher_query = strip q,
               expires_at = now e + 86400 * 1000000\<rparr>]"
      unfolding m .
  qed
  have ex: "\<not> list_all isspace q \<and> is_datetime (now e) \<and> is_datetime (now e + 86400 * 1000000)
        \<and> db_failure e = None \<and> uuid4 e \<notin> set (map embed_token (embed_tokens db)) \<longrightarrow>
        (\<exists>r db'. create_embed_endpoint e db \<lparr>cypherQuery = q, expiresInDays = 0\<rparr> = (Inr r, db'))"
  proof (intro impI, elim conjE)
    assume h: "\<not> list_all isspace q" "is_datetime (now e)"
      "is_datetime (now e + 86400 * 1000000)"
      "db_failure e = None" "uuid4 e \<notin> set (map embed_token (embed_tokens db))"
    have one: "(1::int) \<le> 1" by simp
    have dt: "is_datetime (now e + 1 * 86400000000)" using h(3) by simp
    show "\<exists>r db'. create_embed_endpoint e db \<lparr>cypherQuery = q, expiresInDays = 0\<rparr> = (Inr r, db')"
      unfolding c create_embed_endpoint_reaches_insert[OF h(1) one h(2) dt]
        create_embed_ok[OF h(4,5)]
      by simp
  qed
  show ?thesis
    by (intro conjI) (fact a, fact p, fact d7, fact b, fact c, fact d, fact ex)
qed

text \<open>
  Instances: the values 0 and -3 in the body are rejected; a request holding 0, made on
  2025-01-01, stores a token that expires on 2025-01-02; a body without the field stores
  one that expires on 2025-01-08.
\<close>

theorem C7_ttl_witness:
  "(0::int) < 1 \<and> (-3::int) < 1
   \<and> \<not> list_all isspace (py_str ''RETURN 1'')
   \<and> is_datetime 63871286400000000 \<and> is_datetime (63871286400000000 + 86400 * 1000000)
   \<and> http_status (fst (post_api_embed
        \<lparr>now = 63871286400000000, uuid4 = py_str ''t1'', EMBED_BASE_URL = None,
         db_failure = None, unique_violation = py_str ''duplicate key value''\<rparr>
        \<lparr>embed_tokens = [], statements = []\<rparr>
        \<lparr>cypherQuery_field = Some (py_str ''RETURN 1''), expiresInDays_field = Some 0\<rparr>)) = 422
   \<and> post_api_embed
        \<lparr>now = 63871286400000000, uuid4 = py_str ''t1'', EMBED_BASE_URL = None,
         db_failure = None, unique_violation = py_str ''duplicate key value''\<rparr>
        \<lparr>embed_tokens = [], statements = []\<rparr>
        \<lparr>cypherQuery_field = Some (py_str ''RETURN 1''), expiresInDays_field = Some (-3)\<rparr> =
      (Inl (RequestValidationError [py_str ''expiresInDays: Input should be greater than or equal to 1'']),
       \<lparr>embed_tokens = [], statements = []\<rparr>)
   \<and> (\<exists>r db'. create_embed_endpoint
        \<lparr>now = 63871286400000000, uuid4 = py_str ''t1'', EMBED_BASE_URL = None,
         db_failure = None, unique_violation = py_str ''duplicate key value''\<rparr>
        \<lparr>embed_tokens = [], statements = []\<rparr>
        \<lparr>cypherQuery = py_str ''RETURN 1'', expiresInDays = 0\<rparr> = (Inr r, db')
       \<and> expiresIn (response.data r) = 86400
       \<and> EmbedData.expiresAt (response.data r) = 63871372800000000
       \<and> embed_tokens db' =
           [\<lparr>embed_token = embedToken (response.data r), cypher_query = strip (py_str ''RETURN 1''),
             expires_at = 63871372800000000\<rparr>])
   \<and> (\<exists>r db'. post_api_embed
        \<lparr>now = 63871286400000000, uuid4 = py_str ''t1'', EMBED_BASE_URL = None,
         db_failure = None, unique_violation = py_str ''duplicate key value''\<rparr>
        \<lparr>embed_tokens = [], statements = []\<rparr>
        \<lparr>cypherQuery_field = Some (py_str ''RETURN 1''), expiresInDays_field = None\<rparr> = (Inr r, db')
       \<and> expiresIn (response.data r) = 604800
       \<and> embed_tokens db' =
           [\<lparr>embed_token = embedToken (response.data r), cypher_query = strip (py_str ''RETURN 1''),
             expires_at = 63871891200000000\<rparr>])"
proof -
  let ?e = "\<lparr>now = 63871286400000000, uuid4 = py_str ''t1'', EMBED_BASE_URL = None,
         db_failure = None, unique_violation = py_str ''duplicate key value''\<rparr>"
  let ?db = "\<lparr>embed_tokens = [], statements = []\<rparr>"
  let ?q = "py_str ''RETURN 1''"
  note t0 = C7_ttl_default_rejection_and_zero_fallback[of ?q ?e ?db 0 "Some ?q"]
  note t3 = C7_ttl_default_rejection_and_zero_fallback[of ?q ?e ?db "-3" "Some ?q"]
  have h1: "\<not> list_all isspace ?q" by (simp add: py_str_def isspace_def)
  have h2: "is_datetime 63871286400000000" "is_datetime (63871286400000000 + 86400 * 1000000)"
    by (simp_all add: is_datetime_def datetime_end_def MAXORDINAL_def)
  note b0 = t0[THEN conjunct2, THEN conjunct2, THEN conjunct2, THEN conjunct1]
  note b3 = t3[THEN conjunct2, THEN conjunct2, THEN conjunct2, THEN conjunct1]
  note d0 = t0[THEN conjunct2, THEN conjunct2, THEN conjunct2, THEN conjunct2, THEN conjunct2,
      THEN conjunct1]
  note ex0 = t0[THEN conjunct2, THEN conjunct2, THEN conjunct2, THEN conjunct2, THEN conjunct2,
      THEN conjunct2]
  have "(0::int) < 1" by simp
  with b0 obtain errs0 where "post_api_embed ?e ?db
        \<lparr>cypherQuery_field = Some ?q, expiresInDays_field = Some 0\<rparr> =
      (Inl (RequestValidationError errs0), ?db)"
    by blast
  then have p1: "http_status (fst (post_api_embed ?e ?db
        \<lparr>cypherQuery_field = Some ?q, expiresInDays_field = Some 0\<rparr>)) = 422"
    by simp
  have "(-3::int) < 1" by simp
  with b3 obtain errs3 where
    v3: "EmbedRequest_validate \<lparr>cypherQuery_field = Some ?q, expiresInDays_field = Some (-3)\<rparr> =
      Inl (RequestValidationError errs3)"
    and q3: "post_api_embed ?e ?db
        \<lparr>cypherQuery_field = Some ?q, expiresInDays_field = Some (-3)\<rparr> =
      (Inl (RequestValidationError errs3), ?db)"
    by blast
  from v3 have "errs3 = [py_str ''expiresInDays: Input should be greater than or equal to 1'']"
    by (simp add: EmbedRequest_validate_def)
  with q3 have p2: "post_api_embed ?e ?db
        \<lparr>cypherQuery_field = Some ?q, expiresInDays_field = Some (-3)\<rparr> =
      (Inl (RequestValidationError [py_str ''expiresInDays: Input should be greater than or equal to 1'']), ?db)"
    by simp
  from ex0 h1 h2 have "\<exists>r db'. create_embed_endpoint ?e ?db
      \<lparr>cypherQuery = ?q, expiresInDays = 0\<rparr> = (Inr r, db')"
    by simp
  then obtain r db' where
    c0: "create_embed_endpoint ?e ?db \<lparr>cypherQuery = ?q, expiresInDays = 0\<rparr> = (Inr r, db')"
    by blast
  from d0 have "\<forall>r db'. create_embed_endpoint ?e ?db \<lparr>cypherQuery = ?q, expiresInDays = 0\<rparr> = (Inr r, db') \<longrightarrow>
          expiresIn (response.data r) = 86400
        \<and> EmbedData.expiresAt (response.data r) = now ?e + 86400 * 1000000
        \<and> embed_tokens db' = embed_tokens ?db @
             [\<lparr>embed_token = embedToken (response.data r), cypher_query = strip ?q,
               expires_at = now ?e + 86400 * 1000000\<rparr>]"
    by blast
  with c0 have "expiresIn (response.data r) = 86400
        \<and> EmbedData.expiresAt (response.data r) = now ?e + 86400 * 1000000
        \<and> embed_tokens db' = embed_tokens ?db @
             [\<lparr>embed_token = embedToken (response.data r), cypher_query = strip ?q,
               expires_at = now ?e + 86400 * 1000000\<rparr>]"
    by blast
  with c0 have p4: "\<exists>r db'. create_embed_endpoint ?e ?db \<lparr>cypherQuery = ?q, expiresInDays = 0\<rparr> = (Inr r, db')
       \<and> expiresIn (response.data r) = 86400
       \<and> EmbedData.expiresAt (response.data r) = 63871372800000000
       \<and> embed_tokens db' =
           [\<lparr>embed_token = embedToken (response.data r), cypher_query = strip ?q,
             expires_at = 63871372800000000\<rparr>]"
    by auto
  note pd = t0[THEN conjunct2, THEN conjunct1]
  note d7 = t0[THEN conjunct2, THEN conjunct2, THEN conjunct1]
  have h7: "(1::int) \<le> 7" "is_datetime (now ?e)" "is_datetime (now ?e + 7 * 86400000000)"
    by (simp_all add: is_datetime_def datetime_end_def MAXORDINAL_def)
  have f7: "db_failure ?e = None" "uuid4 ?e \<notin> set (map embed_token (embed_tokens ?db))"
    by simp_all
  have "\<exists>r db'. create_embed_endpoint ?e ?db \<lparr>cypherQuery = ?q, expiresInDays = 7\<rparr> = (Inr r, db')"
    unfolding create_embed_endpoint_reaches_insert[OF h1 h7] create_embed_ok[OF f7]
    by simp
  with pd obtain r7 db7 where c7: "post_api_embed ?e ?db
      \<lparr>cypherQuery_field = Some ?q, expiresInDays_field = None\<rparr> = (Inr r7, db7)"
    by auto
  from d7 have "\<forall>r db'. post_api_embed ?e ?db
        \<lparr>cypherQuery_field = Some ?q, expiresInDays_field = None\<rparr> = (Inr r, db') \<longrightarrow>
          expiresIn (response.data r) = 7 * 86400
        \<and> embed_tokens db' = embed_tokens ?db @
             [\<lparr>embed_token = embedToken (response.data r), cypher_query = strip ?q,
               expires_at = now ?e + (7 * 86400) * 1000000\<rparr>]"
    by blast
  with c7 have "expiresIn (response.data r7) = 7 * 86400
        \<and> embed_tokens db7 = embed_tokens ?db @
             [\<lparr>embed_token = embedToken (response.data r7), cypher_query = strip ?q,
               expires_at = now ?e + (7 * 86400) * 1000000\<rparr>]"
    by blast
  with c7 have p5: "\<exists>r db'. post_api_embed ?e ?db
        \<lparr>cypherQuery_field = Some ?q, expiresInDays_field = None\<rparr> = (Inr r, db')
       \<and> expiresIn (response.data r) = 604800
       \<and> embed_tokens db' =
           [\<lparr>embed_token = embedToken (response.data r), cypher_query = strip ?q,
             expires_at = 63871891200000000\<rparr>]"
    by auto
  from h1 h2 p1 p2 p4 p5 show ?thesis by simp
qed

text \<open>
  C8. For every failure of \<open>run_cypher\<close> (an \<open>HTTPException\<close> with status 503, 400 or 500),
  the route \<open>POST /api/proxy/query\<close> returns normally, so with HTTP 200, the body
  \<open>{success: False, error: {message: str(e)}}\<close>.
\<close>

theorem C8_proxy_failure_is_uniform_200:
  assumes "\<not> list_all isspace (cypher request)"
    and "fst (run_cypher g (cypher request)
               (case params request of None \<Rightarrow> Map.empty | Some p \<Rightarrow> p)) = Inl h"
  shows "fst (proxy_query_endpoint g request) =
           Inr \<lparr>ProxyQueryResponse.success = False,
                ProxyQueryResponse.data = None,
                error = Some [(py_str ''message'', str_HTTPException h)]\<rparr>
     \<and> http_status (fst (proxy_query_endpoint g request)) = 200
     \<and> status_code h \<in> {503, 400, 500}"
proof -
  have nb: "\<not> (cypher request = [] \<or> strip (cypher request) = [])"
    using assms(1) by (simp add: blank_test)
  have "status_code h \<in> {503, 400, 500}"
    using assms(2) by (auto simp: run_cypher_def Let_def split: run_result.splits if_splits)
  moreover have "fst (proxy_query_endpoint g request) =
           Inr \<lparr>ProxyQueryResponse.success = False,
                ProxyQueryResponse.data = None,
                error = Some [(py_str ''message'', str_HTTPException h)]\<rparr>"
    using nb assms(2) by (auto simp add: proxy_query_endpoint_def split: prod.splits sum.splits)
  ultimately show ?thesis by simp
qed

text \<open>An instance: the graph database is unreachable.\<close>

theorem C8_unreachable_database_witness:
  "\<not> list_all isspace (py_str ''RETURN 1'')
   \<and> fst (proxy_query_endpoint
        \<lparr>respond = (\<lambda>cy ps. (Raises \<lparr>exc_type = ServiceUnavailable, message = py_str ''down''\<rparr> :: nat run_result)),
         runs = ([] :: (str \<times> (str \<rightharpoonup> nat)) list)\<rparr>
        \<lparr>cypher = py_str ''RETURN 1'', params = None\<rparr>) =
      Inr \<lparr>ProxyQueryResponse.success = False,
           ProxyQueryResponse.data = None,
           error = Some [(py_str ''message'', py_str ''503: Neo4j service unavailable: down'')]\<rparr>
   \<and> http_status (fst (proxy_query_endpoint
        \<lparr>respond = (\<lambda>cy ps. (Raises \<lparr>exc_type = ServiceUnavailable, message = py_str ''down''\<rparr> :: nat run_result)),
         runs = ([] :: (str \<times> (str \<rightharpoonup> nat)) list)\<rparr>
        \<lparr>cypher = py_str ''RETURN 1'', params = None\<rparr>)) = 200"
proof -
  let ?g = "\<lparr>respond = (\<lambda>cy ps. (Raises \<lparr>exc_type = ServiceUnavailable, message = py_str ''down''\<rparr> :: nat run_result)),
         runs = ([] :: (str \<times> (str \<rightharpoonup> nat)) list)\<rparr>"
  let ?rq = "\<lparr>cypher = py_str ''RETURN 1'', params = None\<rparr> :: nat ProxyQueryRequest"
  have h1: "\<not> list_all isspace (cypher ?rq)" by (simp add: py_str_def isspace_def)
  have h2: "fst (run_cypher ?g (cypher ?rq) (case params ?rq of None \<Rightarrow> Map.empty | Some p \<Rightarrow> p)) =
      Inl \<lparr>status_code = 503, detail = py_str ''Neo4j service unavailable: down''\<rparr>"
    by (simp add: run_cypher_def isinstance_def Let_def py_str_def)
  have d: "decimal 503 = py_str ''503''"
    by (simp add: decimal.simps py_str_def)
  from C8_proxy_failure_is_uniform_200[OF h1 h2] h1 d
  show ?thesis by (simp add: str_HTTPException_def py_str_def)
qed

text \<open>
  C9 (as amended). \<open>find_by_token\<close> and \<open>get_embed_data\<close> leave every stored record of
  any database as it is. A record whose \<open>expires_at\<close> is before \<open>t0\<close>, and is not
  \<open>datetime.min\<close>, is still stored after any further requests, and every resolution of
  its token at \<open>t0\<close> or later whose lookup does not fail reports Expired (HTTP 410).
\<close>

theorem C9_resolution_is_pure_and_expiry_is_permanent:
  assumes "distinct (map embed_token (embed_tokens db))"
    and "r \<in> set (embed_tokens db)"
    and "expires_at r \<noteq> datetime_min"
    and "expires_at r < t0" and "t0 \<le> now e'" and "db_failure e' = None"
  shows "embed_tokens (snd (find_by_token e db0 tok)) = embed_tokens db0
     \<and> embed_tokens (snd (get_embed_data e db0 tok)) = embed_tokens db0
     \<and> r \<in> set (embed_tokens (foldl serve db rqs))
     \<and> fst (get_embed_data e' (foldl serve db rqs) (embed_token r)) =
         Inl (HTTP \<lparr>status_code = 410, detail = py_str ''Token expired''\<rparr>)"
proof -
  let ?db = "foldl serve db rqs"
  from foldl_serve_keeps[OF assms(1,2)]
  have d: "distinct (map embed_token (embed_tokens ?db))" and m: "r \<in> set (embed_tokens ?db)"
    by simp_all
  have "filter (\<lambda>x. embed_token x = embed_token r) (embed_tokens ?db) = [r]"
    by (rule filter_token_unique[OF d m])
  moreover have "expires_at r < now e'" using assms(4,5) by simp
  ultimately have "fst (get_embed_data e' ?db (embed_token r)) =
      Inl (HTTP \<lparr>status_code = 410, detail = py_str ''Token expired''\<rparr>)"
    using assms(3,6) by (simp add: get_embed_data_def find_by_token_def expired_at_before)
  with m show ?thesis
    by (simp add: find_by_token_rows get_embed_data_rows)
qed

text \<open>An instance: an expired token, resolved again after four further requests.\<close>

theorem C9_expired_forever_witness:
  "distinct (map embed_token [\<lparr>embed_token = py_str ''old'', cypher_query = py_str ''RETURN 1'', expires_at = 5\<rparr>])
   \<and> (5::int) \<noteq> datetime_min \<and> (5::int) < 6 \<and> (6::int) \<le> 1000
   \<and> fst (get_embed_data
        \<lparr>now = 1000, uuid4 = py_str ''u9'', EMBED_BASE_URL = None,
         db_failure = None, unique_violation = py_str ''duplicate key value''\<rparr>
        (foldl serve
           \<lparr>embed_tokens = [\<lparr>embed_token = py_str ''old'', cypher_query = py_str ''RETURN 1'', expires_at = 5\<rparr>],
            statements = []\<rparr>
           [GET_api_embed \<lparr>now = 7, uuid4 = py_str ''u1'', EMBED_BASE_URL = None,
                           db_failure = None, unique_violation = py_str ''duplicate key value''\<rparr> (py_str ''old''),
            GET_view \<lparr>now = 7, uuid4 = py_str ''u1'', EMBED_BASE_URL = None,
                      db_failure = None, unique_violation = py_str ''duplicate key value''\<rparr> (py_str ''old''),
            POST_api_embed \<lparr>now = 8, uuid4 = py_str ''old'', EMBED_BASE_URL = None,
                            db_failure = None, unique_violation = py_str ''duplicate key value''\<rparr>
              \<lparr>cypherQuery_field = Some (py_str ''RETURN 2''), expiresInDays_field = Some 1\<rparr>,
            POST_api_embed \<lparr>now = 9, uuid4 = py_str ''u2'', EMBED_BASE_URL = None,
                            db_failure = None, unique_violation = py_str ''duplicate key value''\<rparr>
              \<lparr>cypherQuery_field = Some (py_str ''RETURN 3''), expiresInDays_field = None\<rparr>])
        (py_str ''old'')) =
      Inl (HTTP \<lparr>status_code = 410, detail = py_str ''Token expired''\<rparr>)"
proof -
  let ?r = "\<lparr>embed_token = py_str ''old'', cypher_query = py_str ''RETURN 1'', expires_at = 5\<rparr>"
  let ?db = "\<lparr>embed_tokens = [?r], statements = []\<rparr>"
  have d: "distinct (map embed_token (embed_tokens ?db))" by simp
  have m: "?r \<in> set (embed_tokens ?db)" by simp
  have nm: "expires_at ?r \<noteq> datetime_min" by (simp add: datetime_min_def)
  have a: "expires_at ?r < 6" by simp
  have b: "6 \<le> now \<lparr>now = 1000, uuid4 = py_str ''u9'', EMBED_BASE_URL = None,
                        db_failure = None, unique_violation = py_str ''duplicate key value''\<rparr>"
    by simp
  have c: "db_failure \<lparr>now = 1000, uuid4 = py_str ''u9'', EMBED_BASE_URL = None,
                       db_failure = None, unique_violation = py_str ''duplicate key value''\<rparr> = None"
    by simp
  from C9_resolution_is_pure_and_expiry_is_permanent[OF d m nm a b c, where rqs =
      "[GET_api_embed \<lparr>now = 7, uuid4 = py_str ''u1'', EMBED_BASE_URL = None,
                       db_failure = None, unique_violation = py_str ''duplicate key value''\<rparr> (py_str ''old''),
            GET_view \<lparr>now = 7, uuid4 = py_str ''u1'', EMBED_BASE_URL = None,
                      db_failure = None, unique_violation = py_str ''duplicate key value''\<rparr> (py_str ''old''),
        POST_api_embed \<lparr>now = 8, uuid4 = py_str ''old'', EMBED_BASE_URL = None,
                        db_failure = None, unique_violation = py_str ''duplicate key value''\<rparr>
          \<lparr>cypherQuery_field = Some (py_str ''RETURN 2''), expiresInDays_field = Some 1\<rparr>,
        POST_api_embed \<lparr>now = 9, uuid4 = py_str ''u2'', EMBED_BASE_URL = None,
                        db_failure = None, unique_violation = py_str ''duplicate key value''\<rparr>
          \<lparr>cypherQuery_field = Some (py_str ''RETURN 3''), expiresInDays_field = None\<rparr>]"]
  show ?thesis by (simp add: datetime_min_def)
qed

text \<open>
  C9 as stated fails: when the database closes the connection during the lookup,
  resolving an expired token reports HTTP 500, not Expired; and a record whose expiry is
  \<open>datetime.min\<close>, in the past at every later time, is read back naive, so that resolving
  its token raises \<open>TypeError\<close>.
\<close>

theorem C9_not_always_expired_counterexample:
  "fst (get_embed_data
        \<lparr>now = 63871286400000000, uuid4 = py_str ''u9'', EMBED_BASE_URL = None,
         db_failure = Some (SQLAlchemyError (py_str ''connection was closed'')),
         unique_violation = py_str ''duplicate key value''\<rparr>
        \<lparr>embed_tokens = [\<lparr>embed_token = py_str ''old'', cypher_query = py_str ''RETURN 1'',
                          expires_at = 5\<rparr>],
         statements = []\<rparr>
        (py_str ''old'')) =
      Inl (HTTP \<lparr>status_code = 500, detail = py_str ''Database error: connection was closed''\<rparr>)
   \<and> (5::int) < 63871286400000000
   \<and> fst (get_embed_data
        \<lparr>now = 63871286400000000, uuid4 = py_str ''u9'', EMBED_BASE_URL = None,
         db_failure = None, unique_violation = py_str ''duplicate key value''\<rparr>
        \<lparr>embed_tokens = [\<lparr>embed_token = py_str ''first'', cypher_query = py_str ''RETURN 1'',
                          expires_at = datetime_min\<rparr>],
         statements = []\<rparr>
        (py_str ''first'')) = Inl TypeError
   \<and> datetime_min < 63871286400000000"
  by (simp add: get_embed_data_def find_by_token_def expired_at_def is_datetime_def
      datetime_min_def datetime_end_def MAXORDINAL_def send_def Let_def py_str_def)

text \<open>
  C10 (as amended). For every \<open>ttlDays \<ge> 1\<close> for which \<open>now + ttlDays\<close> days is still a
  \<open>datetime\<close>, the route \<open>POST /api/embed\<close> accepts the body and, when the insert
  succeeds, issues the token: the route reads no setting, so \<open>MAX_TOKEN_EXPIRY_DAYS\<close>
  bounds nothing.
\<close>

theorem C10_ttl_above_maximum_is_accepted:
  assumes "\<not> list_all isspace q" and "1 \<le> n"
    and "is_datetime (now e)" and "is_datetime (now e + (n * 86400) * 1000000)"
    and "db_failure e = None" and "uuid4 e \<notin> set (map embed_token (embed_tokens db))"
  shows "post_api_embed e db \<lparr>cypherQuery_field = Some q, expiresInDays_field = Some n\<rparr> =
           (Inr \<lparr>response.success = True,
                 response.data =
                   \<lparr>embedUrl = (case EMBED_BASE_URL e of
                                  None \<Rightarrow> py_str ''http://localhost:8000'' | Some u \<Rightarrow> u)
                               @ py_str ''/view/'' @ uuid4 e,
                     embedToken = uuid4 e,
                     expiresAt = now e + (n * 86400) * 1000000,
                     expiresIn = n * 86400\<rparr>\<rparr>,
            db\<lparr>embed_tokens := embed_tokens db @
                   [\<lparr>embed_token = uuid4 e, cypher_query = strip q,
                     expires_at = now e + (n * 86400) * 1000000\<rparr>],
               statements := statements db @
                   [INSERT \<lparr>embed_token = uuid4 e, cypher_query = strip q,
                            expires_at = now e + (n * 86400) * 1000000\<rparr>]\<rparr>)"
proof -
  have ar: "(n * 86400) * 1000000 = n * 86400000000" by simp
  have dt: "is_datetime (now e + n * 86400000000)" using assms(4) unfolding ar .
  have v: "EmbedRequest_validate \<lparr>cypherQuery_field = Some q, expiresInDays_field = Some n\<rparr> =
      Inr \<lparr>cypherQuery = q, expiresInDays = n\<rparr>"
    using assms(2) by (simp add: EmbedRequest_validate_def)
  show ?thesis
    unfolding post_api_embed_def v ar
    by (simp add: create_embed_endpoint_reaches_insert[OF assms(1,2,3) dt]
        create_embed_ok[OF assms(5,6)])
qed

text \<open>An instance: 91 days, one more than the configured maximum.\<close>

theorem C10_ninety_one_days_witness:
  "\<not> list_all isspace (py_str ''RETURN 1'')
   \<and> MAX_TOKEN_EXPIRY_DAYS settings < 91
   \<and> is_datetime 63871286400000000 \<and> is_datetime (63871286400000000 + (91 * 86400) * 1000000)
   \<and> post_api_embed
        \<lparr>now = 63871286400000000, uuid4 = py_str ''t1'', EMBED_BASE_URL = None,
         db_failure = None, unique_violation = py_str ''duplicate key value''\<rparr>
        \<lparr>embed_tokens = [], statements = []\<rparr>
        \<lparr>cypherQuery_field = Some (py_str ''RETURN 1''), expiresInDays_field = Some 91\<rparr> =
      (Inr \<lparr>response.success = True,
            response.data =
              \<lparr>embedUrl = py_str ''http://localhost:8000/view/t1'',
                embedToken = py_str ''t1'',
                expiresAt = 63879148800000000,
                expiresIn = 7862400\<rparr>\<rparr>,
       \<lparr>embed_tokens = [\<lparr>embed_token = py_str ''t1'', cypher_query = py_str ''RETURN 1'',
                          expires_at = 63879148800000000\<rparr>],
        statements = [INSERT \<lparr>embed_token = py_str ''t1'', cypher_query = py_str ''RETURN 1'',
                              expires_at = 63879148800000000\<rparr>]\<rparr>)"
proof -
  let ?q = "py_str ''RETURN 1''"
  let ?e = "\<lparr>now = 63871286400000000, uuid4 = py_str ''t1'', EMBED_BASE_URL = None,
             db_failure = None, unique_violation = py_str ''duplicate key value''\<rparr>"
  let ?db = "\<lparr>embed_tokens = [], statements = []\<rparr>"
  have h1: "\<not> list_all isspace ?q" by (simp add: py_str_def isspace_def)
  have h2: "(1::int) \<le> 91" by simp
  have h3: "is_datetime (now ?e)" by (simp add: is_datetime_def datetime_end_def MAXORDINAL_def)
  have h4: "is_datetime (now ?e + (91 * 86400) * 1000000)"
    by (simp add: is_datetime_def datetime_end_def MAXORDINAL_def)
  have h5: "db_failure ?e = None" by simp
  have h6: "uuid4 ?e \<notin> set (map embed_token (embed_tokens ?db))" by simp
  have s: "strip ?q = ?q" by (simp add: strip_def py_str_def isspace_def)
  have m: "MAX_TOKEN_EXPIRY_DAYS settings < 91" by (simp add: settings_def)
  from C10_ttl_above_maximum_is_accepted[OF h1 h2 h3 h4 h5 h6] h1 h3 h4 s m
  show ?thesis by (simp add: py_str_def)
qed

text \<open>
  C10 as stated fails: a TTL of 10000000000 days passes validation, but
  \<open>timedelta\<close> raises \<open>OverflowError\<close> and no token is issued.
\<close>

theorem C10_huge_ttl_counterexample:
  "(1::int) \<le> 10000000000
   \<and> post_api_embed
        \<lparr>now = 63871286400000000, uuid4 = py_str ''t1'', EMBED_BASE_URL = None,
         db_failure = None, unique_violation = py_str ''duplicate key value''\<rparr>
        \<lparr>embed_tokens = [], statements = []\<rparr>
        \<lparr>cypherQuery_field = Some (py_str ''RETURN 1''), expiresInDays_field = Some 10000000000\<rparr> =
      (Inl OverflowError, \<lparr>embed_tokens = [], statements = []\<rparr>)"
  by (simp add: post_api_embed_def EmbedRequest_validate_def create_embed_endpoint_def
      timedelta_seconds_def strip_def isspace_def py_str_def Let_def)

end
